theory Spec2Isabelle
  imports Complex_Main
begin

section \<open>Library functions the ledger code calls\<close>

text \<open>
  The ledger engine of \<^verbatim>\<open>backend/blockchain_integration.py\<close> (class
  \<^verbatim>\<open>CreditBlockchain\<close>) and of \<^verbatim>\<open>backend/deep_learning_model.py\<close> (class
  \<^verbatim>\<open>CreditModelBlockchain\<close>) calls three library functions whose code is not part
  of the repository. They are parameters of the model, collected in one record, and
  every general theorem below holds for every choice of them:
  \<^item> \<open>sha256\<close> stands for \<^verbatim>\<open>hashlib.sha256(s.encode()).hexdigest()\<close>;
  \<^item> \<open>float_repr\<close> stands for the text \<^verbatim>\<open>json.dumps\<close> writes for a float
    (\<^verbatim>\<open>float.__repr__\<close>); a float is carried as the rational it denotes;
  \<^item> \<open>json_loads\<close> stands for \<^verbatim>\<open>json.loads\<close>, with \<open>None\<close> when it raises.
\<close>

datatype json =
    JNull
  | JBool bool
  | JInt int
  | JFloat rat
  | JStr string
  | JList "json list"
  | JObj "(string \<times> json) list"

record pylib =
  sha256 :: "string \<Rightarrow> string"
  float_repr :: "rat \<Rightarrow> string"
  json_loads :: "string \<Rightarrow> json option"

subsection \<open>\<^verbatim>\<open>str\<close> of an integer\<close>

definition digit_char :: "nat \<Rightarrow> char" where
  "digit_char n = ''0123456789'' ! (n mod 10)"

fun str_nat :: "nat \<Rightarrow> string" where
  "str_nat n = (if n < 10 then [digit_char n] else str_nat (n div 10) @ [digit_char n])"

declare str_nat.simps [simp del]

definition py_str :: "int \<Rightarrow> string" where
  "py_str i = (if i < 0 then CHR ''-'' # str_nat (nat (- i)) else str_nat (nat i))"

subsection \<open>\<^verbatim>\<open>json.dumps(value, sort_keys=...)\<close>\<close>

text \<open>
  Strings are written between double quotes with Python's default escapes
  (\<^verbatim>\<open>ensure_ascii=True\<close>); a character of the model is a code point below 256.
\<close>

definition hexdigit :: "nat \<Rightarrow> char" where
  "hexdigit n = ''0123456789abcdef'' ! (n mod 16)"

definition esc_char :: "char \<Rightarrow> string" where
  "esc_char c =
     (if c = CHR ''\"'' then [CHR 0x5C, CHR ''\"'']
      else if c = CHR 0x5C then [CHR 0x5C, CHR 0x5C]
      else if c = CHR 0x0A then [CHR 0x5C, CHR ''n'']
      else if c = CHR 0x0D then [CHR 0x5C, CHR ''r'']
      else if c = CHR 0x09 then [CHR 0x5C, CHR ''t'']
      else if c = CHR 0x08 then [CHR 0x5C, CHR ''b'']
      else if c = CHR 0x0C then [CHR 0x5C, CHR ''f'']
      else if (of_char c :: nat) < 32 \<or> 128 \<le> (of_char c :: nat)
        then [CHR 0x5C, CHR ''u'', CHR ''0'', CHR ''0'',
              hexdigit (of_char c div 16), hexdigit (of_char c)]
      else [c])"

definition json_string :: "string \<Rightarrow> string" where
  "json_string s = CHR ''\"'' # concat (map esc_char s) @ [CHR ''\"'']"

fun join :: "string \<Rightarrow> string list \<Rightarrow> string" where
  "join sep [] = []"
| "join sep [x] = x"
| "join sep (x # y # ys) = x @ sep @ join sep (y # ys)"

text \<open>Dictionary keys are sorted by code point, as Python compares \<^verbatim>\<open>str\<close>.\<close>

fun str_lt :: "string \<Rightarrow> string \<Rightarrow> bool" where
  "str_lt [] [] = False"
| "str_lt [] (y # ys) = True"
| "str_lt (x # xs) [] = False"
| "str_lt (x # xs) (y # ys) =
     (if (of_char x :: nat) < of_char y then True
      else if (of_char y :: nat) < of_char x then False
      else str_lt xs ys)"

fun insert_item :: "string \<times> string \<Rightarrow> (string \<times> string) list \<Rightarrow> (string \<times> string) list" where
  "insert_item kv [] = [kv]"
| "insert_item kv (x # xs) =
     (if str_lt (fst kv) (fst x) then kv # x # xs else x # insert_item kv xs)"

definition sort_items :: "(string \<times> string) list \<Rightarrow> (string \<times> string) list" where
  "sort_items kvs = foldr insert_item kvs []"

fun json_dumps :: "pylib \<Rightarrow> bool \<Rightarrow> json \<Rightarrow> string" where
  "json_dumps L sort_keys JNull = ''null''"
| "json_dumps L sort_keys (JBool b) = (if b then ''true'' else ''false'')"
| "json_dumps L sort_keys (JInt i) = py_str i"
| "json_dumps L sort_keys (JFloat q) = float_repr L q"
| "json_dumps L sort_keys (JStr s) = json_string s"
| "json_dumps L sort_keys (JList xs) =
     ''['' @ join '', '' (map (json_dumps L sort_keys) xs) @ '']''"
| "json_dumps L sort_keys (JObj kvs) =
     (let items = map (\<lambda>kv. (fst kv, json_dumps L sort_keys (snd kv))) kvs
      in ''{'' @ join '', ''
           (map (\<lambda>kv. json_string (fst kv) @ '': '' @ snd kv)
              (if sort_keys then sort_items items else items)) @ ''}'')"

subsection \<open>Clocks\<close>

text \<open>
  A block is stamped twice: the code hashes \<^verbatim>\<open>datetime.now().isoformat()\<close>, and the
  row's \<^verbatim>\<open>timestamp\<close> column, which no \<^verbatim>\<open>INSERT\<close> of the code sets, takes SQLite's
  \<^verbatim>\<open>DEFAULT CURRENT_TIMESTAMP\<close>. Both readings are inputs of an operation.
\<close>

record datetime =
  year :: nat
  month :: nat
  day :: nat
  hour :: nat
  minute :: nat
  second :: nat
  microsecond :: nat

definition d2 :: "nat \<Rightarrow> string" where
  "d2 n = [digit_char (n div 10), digit_char n]"

definition d4 :: "nat \<Rightarrow> string" where
  "d4 n = [digit_char (n div 1000), digit_char (n div 100), digit_char (n div 10), digit_char n]"

definition d6 :: "nat \<Rightarrow> string" where
  "d6 n = [digit_char (n div 100000), digit_char (n div 10000), digit_char (n div 1000),
           digit_char (n div 100), digit_char (n div 10), digit_char n]"

definition isoformat :: "datetime \<Rightarrow> string" where
  "isoformat t =
     d4 (year t) @ ''-'' @ d2 (month t) @ ''-'' @ d2 (day t) @ ''T'' @
     d2 (hour t) @ '':'' @ d2 (minute t) @ '':'' @ d2 (second t) @
     (if microsecond t = 0 then [] else ''.'' @ d6 (microsecond t))"

definition current_timestamp :: "datetime \<Rightarrow> string" where
  "current_timestamp t =
     d4 (year t) @ ''-'' @ d2 (month t) @ ''-'' @ d2 (day t) @ '' '' @
     d2 (hour t) @ '':'' @ d2 (minute t) @ '':'' @ d2 (second t)"

record clock =
  py_now :: datetime
  db_now :: datetime

section \<open>Merkle root and proof of work\<close>

text \<open>The \<^verbatim>\<open>for i in range(0, len(transactions), 2)\<close> loop of \<^verbatim>\<open>calculate_merkle_root\<close>.\<close>

fun next_level :: "pylib \<Rightarrow> string list \<Rightarrow> string list" where
  "next_level L [] = []"
| "next_level L [x] = [sha256 L (x @ x)]"
| "next_level L (x # y # rest) = sha256 L (x @ y) # next_level L rest"

lemma length_next_level: "length (next_level L xs) = (length xs + 1) div 2"
  by (induction L xs rule: next_level.induct) simp_all

function calculate_merkle_root :: "pylib \<Rightarrow> string list \<Rightarrow> string" where
  "calculate_merkle_root L transactions =
     (if transactions = [] then sha256 L []
      else if length transactions = 1 then sha256 L (transactions ! 0)
      else calculate_merkle_root L (next_level L transactions))"
  by pat_completeness auto
termination
proof (relation "measure (\<lambda>(L, ts). length ts)")
  show "wf (measure (\<lambda>(L, ts). length ts))" by simp
next
  fix L :: pylib and transactions :: "string list"
  assume "transactions \<noteq> []" "length transactions \<noteq> 1"
  then have "2 \<le> length transactions"
    by (cases transactions) (auto simp: Suc_le_eq)
  then show "((L, next_level L transactions), (L, transactions)) \<in> measure (\<lambda>(L, ts). length ts)"
    by (simp add: length_next_level)
qed

declare calculate_merkle_root.simps [simp del]

text \<open>
  \<^verbatim>\<open>proof_of_work\<close>: the loop hashes \<^verbatim>\<open>f"{block_data}{nonce}"\<close>, returns the nonce
  when the digest starts with the target, and otherwise increments it and leaves the
  loop once it exceeds 1000000. The second component of the loop's value is not a
  variable of the source: it records the last nonce whose digest was computed.
\<close>

definition startswith :: "string \<Rightarrow> string \<Rightarrow> bool" where
  "startswith s t = (take (length t) s = t)"

definition meets_target :: "pylib \<Rightarrow> nat \<Rightarrow> string \<Rightarrow> nat \<Rightarrow> bool" where
  "meets_target L d block_data nonce =
     startswith (sha256 L (block_data @ str_nat nonce)) (replicate d CHR ''0'')"

function pow_loop :: "pylib \<Rightarrow> nat \<Rightarrow> string \<Rightarrow> nat \<Rightarrow> nat \<times> nat" where
  "pow_loop L d block_data nonce =
     (if meets_target L d block_data nonce then (nonce, nonce)
      else if nonce + 1 > 1000000 then (nonce + 1, nonce)
      else pow_loop L d block_data (nonce + 1))"
  by pat_completeness auto
termination
  by (relation "measure (\<lambda>(L, d, b, n). 1000001 - n)") auto

declare pow_loop.simps [simp del]

definition proof_of_work :: "pylib \<Rightarrow> nat \<Rightarrow> string \<Rightarrow> nat" where
  "proof_of_work L d block_data = fst (pow_loop L d block_data 0)"

definition last_attempted :: "pylib \<Rightarrow> nat \<Rightarrow> string \<Rightarrow> nat" where
  "last_attempted L d block_data = snd (pow_loop L d block_data 0)"

section \<open>The ledgers of \<^verbatim>\<open>CreditBlockchain\<close>\<close>

text \<open>
  One record per table of \<^verbatim>\<open>_init_blockchain_tables\<close>, a field per column, in
  column order. A table is the list of its rows in \<^verbatim>\<open>id\<close> order, which is the order
  of insertion.
\<close>

record credit_row =
  cs_id :: nat
  cs_block_hash :: string
  cs_previous_hash :: string
  cs_user_id :: int
  cs_credit_score :: int
  cs_model_version :: string
  cs_prediction_confidence :: rat
  cs_risk_factors :: string
  cs_merkle_root :: string
  cs_nonce :: int
  cs_timestamp :: string
  cs_miner_id :: string
  cs_block_size :: int
  cs_verified :: bool

record tx_row =
  tx_id :: nat
  tx_block_hash :: string
  tx_previous_hash :: string
  tx_user_id :: int
  tx_transaction_type :: string
  tx_amount :: rat
  tx_transaction_hash :: string
  tx_merkle_root :: string
  tx_nonce :: int
  tx_timestamp :: string
  tx_verified :: bool

record mv_row =
  mv_id :: nat
  mv_block_hash :: string
  mv_previous_hash :: string
  mv_model_version :: string
  mv_accuracy :: rat
  mv_training_data_hash :: string
  mv_algorithm_hash :: string
  mv_deployment_timestamp :: string
  mv_nonce :: int
  mv_verified :: bool

record pa_row =
  pa_id :: nat
  pa_block_hash :: string
  pa_previous_hash :: string
  pa_user_id :: int
  pa_input_data_hash :: string
  pa_prediction_hash :: string
  pa_model_hash :: string
  pa_prediction_timestamp :: string
  pa_auditor_signature :: "string option"
  pa_nonce :: int
  pa_verified :: bool

record log_row =
  log_id :: nat
  log_blockchain_type :: string
  log_total_blocks :: nat
  log_verified_blocks :: nat
  log_integrity_score :: rat
  log_verification_timestamp :: string
  log_verification_hash :: string

record credit_blockchain =
  difficulty :: nat
  credit_score_blockchain :: "credit_row list"
  transaction_blockchain :: "tx_row list"
  model_version_blockchain :: "mv_row list"
  prediction_audit_blockchain :: "pa_row list"
  blockchain_verification_log :: "log_row list"

text \<open>\<^verbatim>\<open>__init__\<close> on a fresh database file.\<close>

definition init_blockchain :: credit_blockchain where
  "init_blockchain =
     \<lparr>difficulty = 4, credit_score_blockchain = [], transaction_blockchain = [],
      model_version_blockchain = [], prediction_audit_blockchain = [],
      blockchain_verification_log = []\<rparr>"

text \<open>
  What an \<^verbatim>\<open>INSERT\<close> can raise: a Python integer outside SQLite's 64-bit range
  (\<^verbatim>\<open>OverflowError\<close>) and a \<^verbatim>\<open>block_hash\<close> already in the table, whose column is
  \<^verbatim>\<open>UNIQUE\<close> (\<^verbatim>\<open>IntegrityError\<close>). Neither is caught by the appending method, and
  no row is inserted.
\<close>

datatype sql_error = OverflowError | IntegrityError

definition sqlite_int :: "int \<Rightarrow> bool" where
  "sqlite_int i = (- (2 ^ 63) \<le> i \<and> i < 2 ^ 63)"

definition genesis :: string where
  "genesis = replicate 64 CHR ''0''"

definition credit_block_data ::
  "int \<Rightarrow> int \<Rightarrow> string \<Rightarrow> rat \<Rightarrow> json \<Rightarrow> string \<Rightarrow> string \<Rightarrow> json" where
  "credit_block_data user_id credit_score model_version prediction_confidence risk_factors
       previous_hash timestamp =
     JObj [(''user_id'', JInt user_id),
           (''credit_score'', JInt credit_score),
           (''model_version'', JStr model_version),
           (''prediction_confidence'', JFloat prediction_confidence),
           (''risk_factors'', risk_factors),
           (''previous_hash'', JStr previous_hash),
           (''timestamp'', JStr timestamp)]"

definition add_credit_score_block ::
  "pylib \<Rightarrow> clock \<Rightarrow> credit_blockchain \<Rightarrow> int \<Rightarrow> int \<Rightarrow> string \<Rightarrow> rat \<Rightarrow> string list
   \<Rightarrow> sql_error + string \<times> credit_blockchain" where
  "add_credit_score_block L clk self user_id credit_score model_version
       prediction_confidence risk_factors =
     (let rows = credit_score_blockchain self;
          previous_hash = (if rows = [] then genesis else cs_block_hash (last rows));
          block_data = credit_block_data user_id credit_score model_version
            prediction_confidence (JList (map JStr risk_factors)) previous_hash
            (isoformat (py_now clk));
          transactions = [json_dumps L True block_data];
          merkle_root = calculate_merkle_root L transactions;
          block_string = json_dumps L True block_data @ merkle_root;
          nonce = proof_of_work L (difficulty self) block_string;
          final_block_data = block_string @ str_nat nonce;
          block_hash = sha256 L final_block_data
      in if \<not> sqlite_int user_id \<or> \<not> sqlite_int credit_score then Inl OverflowError
         else if block_hash \<in> set (map cs_block_hash rows) then Inl IntegrityError
         else Inr (block_hash,
           self\<lparr>credit_score_blockchain := rows @
             [\<lparr>cs_id = (if rows = [] then 1 else cs_id (last rows) + 1),
               cs_block_hash = block_hash,
               cs_previous_hash = previous_hash,
               cs_user_id = user_id,
               cs_credit_score = credit_score,
               cs_model_version = model_version,
               cs_prediction_confidence = prediction_confidence,
               cs_risk_factors = json_dumps L False (JList (map JStr risk_factors)),
               cs_merkle_root = merkle_root,
               cs_nonce = int nonce,
               cs_timestamp = current_timestamp (db_now clk),
               cs_miner_id = ''system'',
               cs_block_size = 0,
               cs_verified = True\<rparr>]\<rparr>))"

definition transaction_data :: "int \<Rightarrow> string \<Rightarrow> rat \<Rightarrow> string \<Rightarrow> json" where
  "transaction_data user_id transaction_type amount timestamp =
     JObj [(''user_id'', JInt user_id),
           (''transaction_type'', JStr transaction_type),
           (''amount'', JFloat amount),
           (''timestamp'', JStr timestamp)]"

definition add_transaction_block ::
  "pylib \<Rightarrow> clock \<Rightarrow> credit_blockchain \<Rightarrow> int \<Rightarrow> string \<Rightarrow> rat
   \<Rightarrow> sql_error + string \<times> credit_blockchain" where
  "add_transaction_block L clk self user_id transaction_type amount =
     (let rows = transaction_blockchain self;
          previous_hash = (if rows = [] then genesis else tx_block_hash (last rows));
          transaction_hash = sha256 L (json_dumps L True
            (transaction_data user_id transaction_type amount (isoformat (py_now clk))));
          merkle_root = calculate_merkle_root L [transaction_hash];
          block_string = previous_hash @ transaction_hash @ merkle_root;
          nonce = proof_of_work L (difficulty self) block_string;
          final_block_data = block_string @ str_nat nonce;
          block_hash = sha256 L final_block_data
      in if \<not> sqlite_int user_id then Inl OverflowError
         else if block_hash \<in> set (map tx_block_hash rows) then Inl IntegrityError
         else Inr (block_hash,
           self\<lparr>transaction_blockchain := rows @
             [\<lparr>tx_id = (if rows = [] then 1 else tx_id (last rows) + 1),
               tx_block_hash = block_hash,
               tx_previous_hash = previous_hash,
               tx_user_id = user_id,
               tx_transaction_type = transaction_type,
               tx_amount = amount,
               tx_transaction_hash = transaction_hash,
               tx_merkle_root = merkle_root,
               tx_nonce = int nonce,
               tx_timestamp = current_timestamp (db_now clk),
               tx_verified = True\<rparr>]\<rparr>))"

subsection \<open>Verification\<close>

text \<open>
  \<^verbatim>\<open>SELECT * FROM table ORDER BY id\<close> gives the rows as tuples; \<open>block_1\<close> and
  \<open>block_2\<close> are \<^verbatim>\<open>block[1]\<close> and \<^verbatim>\<open>block[2]\<close>, the \<^verbatim>\<open>block_hash\<close> and
  \<^verbatim>\<open>previous_hash\<close> columns of every table.
\<close>

datatype block =
    CreditBlock credit_row
  | TxBlock tx_row
  | ModelBlock mv_row
  | AuditBlock pa_row

fun block_1 :: "block \<Rightarrow> string" where
  "block_1 (CreditBlock r) = cs_block_hash r"
| "block_1 (TxBlock r) = tx_block_hash r"
| "block_1 (ModelBlock r) = mv_block_hash r"
| "block_1 (AuditBlock r) = pa_block_hash r"

fun block_2 :: "block \<Rightarrow> string" where
  "block_2 (CreditBlock r) = cs_previous_hash r"
| "block_2 (TxBlock r) = tx_previous_hash r"
| "block_2 (ModelBlock r) = mv_previous_hash r"
| "block_2 (AuditBlock r) = pa_previous_hash r"

text \<open>
  \<^verbatim>\<open>table_map.get(blockchain_type, 'credit_score_blockchain')\<close> followed by the
  \<^verbatim>\<open>SELECT\<close>.
\<close>

definition fetch_blocks :: "credit_blockchain \<Rightarrow> string \<Rightarrow> block list" where
  "fetch_blocks self blockchain_type =
     (if blockchain_type = ''credit_score'' then map CreditBlock (credit_score_blockchain self)
      else if blockchain_type = ''transaction'' then map TxBlock (transaction_blockchain self)
      else if blockchain_type = ''model_version'' then map ModelBlock (model_version_blockchain self)
      else if blockchain_type = ''prediction_audit''
        then map AuditBlock (prediction_audit_blockchain self)
      else map CreditBlock (credit_score_blockchain self))"

text \<open>
  \<^verbatim>\<open>_verify_single_block\<close>. Unpacking a tuple of another table's width, and
  \<^verbatim>\<open>json.loads\<close> on text that is not JSON, raise inside the \<^verbatim>\<open>try\<close>, and the
  \<^verbatim>\<open>except\<close> clause returns \<^verbatim>\<open>False\<close>.
\<close>

definition verify_single_block :: "pylib \<Rightarrow> block \<Rightarrow> string \<Rightarrow> bool" where
  "verify_single_block L blk blockchain_type =
     (if blockchain_type = ''credit_score'' then
        (case blk of
           CreditBlock r \<Rightarrow>
             (case json_loads L (cs_risk_factors r) of
                None \<Rightarrow> False
              | Some risk_factors \<Rightarrow>
                  (let block_data = credit_block_data (cs_user_id r) (cs_credit_score r)
                         (cs_model_version r) (cs_prediction_confidence r) risk_factors
                         (cs_previous_hash r) (cs_timestamp r);
                       block_string = json_dumps L True block_data @ cs_merkle_root r;
                       final_block_data = block_string @ py_str (cs_nonce r);
                       calculated_hash = sha256 L final_block_data
                   in calculated_hash = cs_block_hash r))
         | _ \<Rightarrow> False)
      else if blockchain_type = ''transaction'' then
        (case blk of
           TxBlock r \<Rightarrow>
             (let block_string = tx_previous_hash r @ tx_transaction_hash r @ tx_merkle_root r;
                  final_block_data = block_string @ py_str (tx_nonce r);
                  calculated_hash = sha256 L final_block_data
              in calculated_hash = tx_block_hash r)
         | _ \<Rightarrow> False)
      else False)"

text \<open>The two \<^verbatim>\<open>break\<close> statements of the loop of \<^verbatim>\<open>verify_blockchain_integrity\<close>.\<close>

definition linkage_broken :: "string \<Rightarrow> block \<Rightarrow> block \<Rightarrow> bool" where
  "linkage_broken blockchain_type blk previous_block =
     (if blockchain_type = ''credit_score'' then block_2 blk \<noteq> block_1 previous_block
      else if blockchain_type = ''transaction'' then block_2 blk \<noteq> block_1 previous_block
      else False)"

text \<open>
  The loop \<^verbatim>\<open>for i, block in enumerate(blocks)\<close>. Its value is
  \<^verbatim>\<open>verified_blocks\<close> at the end, paired with the number of blocks the loop has
  examined; the latter is not a variable of the source.
\<close>

fun verify_loop :: "pylib \<Rightarrow> string \<Rightarrow> block list \<Rightarrow> nat \<Rightarrow> block list \<Rightarrow> nat \<Rightarrow> nat \<times> nat" where
  "verify_loop L blockchain_type blocks i [] verified_blocks = (verified_blocks, i)"
| "verify_loop L blockchain_type blocks i (blk # rest) verified_blocks =
     (let verified_blocks' =
            (if verify_single_block L blk blockchain_type then verified_blocks + 1
             else verified_blocks)
      in if i > 0 \<and> linkage_broken blockchain_type blk (blocks ! (i - 1))
         then (verified_blocks', i + 1)
         else verify_loop L blockchain_type blocks (i + 1) rest verified_blocks')"

record verification_result =
  valid :: bool
  total_blocks :: nat
  verified_blocks :: nat
  integrity_score :: rat
  verification_hash :: "string option"

definition verification_data :: "string \<Rightarrow> nat \<Rightarrow> nat \<Rightarrow> rat \<Rightarrow> string \<Rightarrow> json" where
  "verification_data blockchain_type total_n verified_n score timestamp =
     JObj [(''blockchain_type'', JStr blockchain_type),
           (''total_blocks'', JInt (int total_n)),
           (''verified_blocks'', JInt (int verified_n)),
           (''integrity_score'', JFloat score),
           (''timestamp'', JStr timestamp)]"

text \<open>
  \<^verbatim>\<open>verify_blockchain_integrity\<close>. The quotient
  \<^verbatim>\<open>verified_blocks / total_blocks\<close> is the exact rational, where Python rounds it to
  a double; on two integers below \<open>2^53\<close> the rounded quotient is \<open>1.0\<close> exactly when
  the integers are equal.
\<close>

definition verify_blockchain_integrity ::
  "pylib \<Rightarrow> clock \<Rightarrow> credit_blockchain \<Rightarrow> string \<Rightarrow> verification_result \<times> credit_blockchain" where
  "verify_blockchain_integrity L clk self blockchain_type =
     (let blocks = fetch_blocks self blockchain_type
      in if blocks = [] then
           (\<lparr>valid = True, total_blocks = 0, verified_blocks = 0, integrity_score = 1,
             verification_hash = None\<rparr>, self)
         else
           (let verified_n = fst (verify_loop L blockchain_type blocks 0 blocks 0);
                total_n = length blocks;
                score = (if total_n > 0 then of_nat verified_n / of_nat total_n else 1);
                vhash = sha256 L (json_dumps L True
                  (verification_data blockchain_type total_n verified_n score
                     (isoformat (py_now clk))));
                vlog = blockchain_verification_log self
            in (\<lparr>valid = (score = 1), total_blocks = total_n, verified_blocks = verified_n,
                 integrity_score = score, verification_hash = Some vhash\<rparr>,
                self\<lparr>blockchain_verification_log := vlog @
                  [\<lparr>log_id = (if vlog = [] then 1 else log_id (last vlog) + 1),
                    log_blockchain_type = blockchain_type,
                    log_total_blocks = total_n,
                    log_verified_blocks = verified_n,
                    log_integrity_score = score,
                    log_verification_timestamp = current_timestamp (db_now clk),
                    log_verification_hash = vhash\<rparr>]\<rparr>)))"

definition blocks_examined :: "pylib \<Rightarrow> credit_blockchain \<Rightarrow> string \<Rightarrow> nat" where
  "blocks_examined L self blockchain_type =
     (let blocks = fetch_blocks self blockchain_type
      in snd (verify_loop L blockchain_type blocks 0 blocks 0))"

subsection \<open>Health check\<close>

record kind_health =
  status :: string
  h_integrity_score :: rat
  h_total_blocks :: nat

record health_report =
  overall_status :: string
  blockchain_health :: "(string \<times> kind_health) list"
  h_timestamp :: string

text \<open>
  The loop \<^verbatim>\<open>for blockchain_type in blockchain_types\<close> of
  \<^verbatim>\<open>blockchain_health_check\<close>; \<open>clk\<close> gives the clock readings during the
  verification of each kind.
\<close>

fun health_loop ::
  "pylib \<Rightarrow> (string \<Rightarrow> clock) \<Rightarrow> string list \<Rightarrow> credit_blockchain \<Rightarrow> (string \<times> kind_health) list
   \<Rightarrow> (string \<times> kind_health) list \<times> credit_blockchain" where
  "health_loop L clk [] self health_status = (health_status, self)"
| "health_loop L clk (blockchain_type # rest) self health_status =
     (let (verification, self') = verify_blockchain_integrity L (clk blockchain_type) self blockchain_type
      in health_loop L clk rest self'
           (health_status @
             [(blockchain_type,
               \<lparr>status = (if integrity_score verification \<ge> 95 / 100 then ''healthy''
                           else ''degraded''),
                h_integrity_score = integrity_score verification,
                h_total_blocks = total_blocks verification\<rparr>)]))"

definition blockchain_health_check ::
  "pylib \<Rightarrow> (string \<Rightarrow> clock) \<Rightarrow> datetime \<Rightarrow> credit_blockchain \<Rightarrow> health_report \<times> credit_blockchain" where
  "blockchain_health_check L clk now self =
     (let blockchain_types = [''credit_score'', ''transaction''];
          (health_status, self') = health_loop L clk blockchain_types self [];
          overall_health = list_all (\<lambda>kv. status (snd kv) = ''healthy'') health_status
      in (\<lparr>overall_status = (if overall_health then ''healthy'' else ''degraded''),
           blockchain_health = health_status,
           h_timestamp = isoformat now\<rparr>, self'))"

section \<open>The model ledger of \<^verbatim>\<open>CreditModelBlockchain\<close>\<close>

text \<open>
  The tables \<^verbatim>\<open>model_blockchain\<close> and \<^verbatim>\<open>prediction_audit\<close> of
  \<^verbatim>\<open>backend/deep_learning_model.py\<close>. A row of \<^verbatim>\<open>prediction_audit\<close> has neither a
  block hash nor a previous hash: audit records are not chained.
\<close>

record model_row =
  m_id :: nat
  m_block_hash :: string
  m_previous_hash :: string
  m_model_version :: string
  m_accuracy :: rat
  m_training_data_hash :: string
  m_timestamp :: string
  m_verified :: bool

record audit_row =
  a_id :: nat
  a_user_id :: int
  a_prediction_hash :: string
  a_model_hash :: string
  a_input_features_hash :: string
  a_prediction_result :: string
  a_timestamp :: string
  a_verified :: bool

definition model_block_data :: "string \<Rightarrow> rat \<Rightarrow> string \<Rightarrow> string \<Rightarrow> string \<Rightarrow> json" where
  "model_block_data model_version accuracy training_data_hash previous_hash timestamp =
     JObj [(''model_version'', JStr model_version),
           (''accuracy'', JFloat accuracy),
           (''training_data_hash'', JStr training_data_hash),
           (''previous_hash'', JStr previous_hash),
           (''timestamp'', JStr timestamp)]"

definition add_model_block ::
  "pylib \<Rightarrow> clock \<Rightarrow> model_row list \<Rightarrow> string \<Rightarrow> rat \<Rightarrow> string
   \<Rightarrow> sql_error + string \<times> model_row list" where
  "add_model_block L clk rows model_version accuracy training_data_hash =
     (let previous_hash = (if rows = [] then ''0'' else m_block_hash (last rows));
          block_data = model_block_data model_version accuracy training_data_hash
            previous_hash (isoformat (py_now clk));
          block_string = json_dumps L True block_data;
          block_hash = sha256 L block_string
      in if block_hash \<in> set (map m_block_hash rows) then Inl IntegrityError
         else Inr (block_hash, rows @
           [\<lparr>m_id = (if rows = [] then 1 else m_id (last rows) + 1),
             m_block_hash = block_hash,
             m_previous_hash = previous_hash,
             m_model_version = model_version,
             m_accuracy = accuracy,
             m_training_data_hash = training_data_hash,
             m_timestamp = current_timestamp (db_now clk),
             m_verified = True\<rparr>]))"

definition audit_prediction ::
  "pylib \<Rightarrow> clock \<Rightarrow> audit_row list \<Rightarrow> int \<Rightarrow> json \<Rightarrow> json \<Rightarrow> string
   \<Rightarrow> sql_error + unit \<times> audit_row list" where
  "audit_prediction L clk rows user_id input_features prediction_result model_hash =
     (let features_string = json_dumps L True input_features;
          features_hash = sha256 L features_string;
          result_string = json_dumps L True prediction_result;
          prediction_hash = sha256 L result_string
      in if \<not> sqlite_int user_id then Inl OverflowError
         else Inr ((), rows @
           [\<lparr>a_id = (if rows = [] then 1 else a_id (last rows) + 1),
             a_user_id = user_id,
             a_prediction_hash = prediction_hash,
             a_model_hash = model_hash,
             a_input_features_hash = features_hash,
             a_prediction_result = result_string,
             a_timestamp = current_timestamp (db_now clk),
             a_verified = True\<rparr>]))"

section \<open>The ledger of \<^verbatim>\<open>SimpleBlockchain\<close>\<close>

text \<open>
  The table \<^verbatim>\<open>credit_blocks\<close> of \<^verbatim>\<open>backend/simple_blockchain_demo.py\<close>. Its
  \<^verbatim>\<open>verify_blockchain\<close> calls \<^verbatim>\<open>json.loads\<close> outside any \<^verbatim>\<open>try\<close>: when that
  raises, so does the method, and the model's value is \<open>None\<close>. Its result has no
  \<^verbatim>\<open>verification_hash\<close>.
\<close>

record simple_row =
  sb_id :: nat
  sb_block_hash :: string
  sb_previous_hash :: string
  sb_user_id :: int
  sb_credit_score :: int
  sb_prediction_data :: string
  sb_timestamp :: string
  sb_verified :: bool

definition simple_block_data :: "int \<Rightarrow> int \<Rightarrow> json \<Rightarrow> string \<Rightarrow> string \<Rightarrow> json" where
  "simple_block_data user_id credit_score prediction_data previous_hash timestamp =
     JObj [(''user_id'', JInt user_id),
           (''credit_score'', JInt credit_score),
           (''prediction_data'', prediction_data),
           (''previous_hash'', JStr previous_hash),
           (''timestamp'', JStr timestamp)]"

definition add_credit_block ::
  "pylib \<Rightarrow> clock \<Rightarrow> simple_row list \<Rightarrow> int \<Rightarrow> int \<Rightarrow> json
   \<Rightarrow> sql_error + string \<times> simple_row list" where
  "add_credit_block L clk rows user_id credit_score prediction_data =
     (let previous_hash = (if rows = [] then genesis else sb_block_hash (last rows));
          block_data = simple_block_data user_id credit_score prediction_data previous_hash
            (isoformat (py_now clk));
          block_string = json_dumps L True block_data;
          block_hash = sha256 L block_string
      in if \<not> sqlite_int user_id \<or> \<not> sqlite_int credit_score then Inl OverflowError
         else if block_hash \<in> set (map sb_block_hash rows) then Inl IntegrityError
         else Inr (block_hash, rows @
           [\<lparr>sb_id = (if rows = [] then 1 else sb_id (last rows) + 1),
             sb_block_hash = block_hash,
             sb_previous_hash = previous_hash,
             sb_user_id = user_id,
             sb_credit_score = credit_score,
             sb_prediction_data = json_dumps L False prediction_data,
             sb_timestamp = current_timestamp (db_now clk),
             sb_verified = True\<rparr>]))"

fun simple_verify_loop ::
  "pylib \<Rightarrow> simple_row list \<Rightarrow> nat \<Rightarrow> simple_row list \<Rightarrow> nat \<Rightarrow> nat option" where
  "simple_verify_loop L blocks i [] verified_n = Some verified_n"
| "simple_verify_loop L blocks i (blk # rest) verified_n =
     (case json_loads L (sb_prediction_data blk) of
        None \<Rightarrow> None
      | Some prediction_data \<Rightarrow>
          (let block_data = simple_block_data (sb_user_id blk) (sb_credit_score blk)
                 prediction_data (sb_previous_hash blk) (sb_timestamp blk);
               block_string = json_dumps L True block_data;
               calculated_hash = sha256 L block_string;
               verified_n' =
                 (if calculated_hash = sb_block_hash blk then verified_n + 1
                  else verified_n)
           in if i > 0 \<and> sb_previous_hash blk \<noteq> sb_block_hash (blocks ! (i - 1))
              then Some verified_n'
              else simple_verify_loop L blocks (i + 1) rest verified_n'))"

definition verify_blockchain :: "pylib \<Rightarrow> simple_row list \<Rightarrow> verification_result option" where
  "verify_blockchain L blocks =
     (if blocks = [] then
        Some \<lparr>valid = True, total_blocks = 0, verified_blocks = 0, integrity_score = 1,
              verification_hash = None\<rparr>
      else
        (case simple_verify_loop L blocks 0 blocks 0 of
           None \<Rightarrow> None
         | Some verified_n \<Rightarrow>
             (let total_n = length blocks;
                  score = (if total_n > 0 then of_nat verified_n / of_nat total_n else 1)
              in Some \<lparr>valid = (score = 1), total_blocks = total_n,
                        verified_blocks = verified_n, integrity_score = score,
                        verification_hash = None\<rparr>)))"

section \<open>Sequences of appends\<close>

text \<open>
  The state a call leaves: the new state when the operation returns, the old one when it
  raises (the \<^verbatim>\<open>INSERT\<close> did not happen, and the endpoints answer with an HTTP
  error). A sequence of calls, each with its payload and its clock readings, is run
  from left to right.
\<close>

definition after :: "'e + 'h \<times> 's \<Rightarrow> 's \<Rightarrow> 's" where
  "after r s = (case r of Inl e \<Rightarrow> s | Inr (h, s') \<Rightarrow> s')"

record credit_payload =
  p_user_id :: int
  p_credit_score :: int
  p_model_version :: string
  p_prediction_confidence :: rat
  p_risk_factors :: "string list"

record transaction_payload =
  t_user_id :: int
  t_transaction_type :: string
  t_amount :: rat

record model_payload =
  mp_model_version :: string
  mp_accuracy :: rat
  mp_training_data_hash :: string

fun append_credit_scores ::
  "pylib \<Rightarrow> (clock \<times> credit_payload) list \<Rightarrow> credit_blockchain \<Rightarrow> credit_blockchain" where
  "append_credit_scores L [] self = self"
| "append_credit_scores L ((clk, p) # calls) self =
     append_credit_scores L calls
       (after (add_credit_score_block L clk self (p_user_id p) (p_credit_score p)
          (p_model_version p) (p_prediction_confidence p) (p_risk_factors p)) self)"

fun append_transactions ::
  "pylib \<Rightarrow> (clock \<times> transaction_payload) list \<Rightarrow> credit_blockchain \<Rightarrow> credit_blockchain" where
  "append_transactions L [] self = self"
| "append_transactions L ((clk, p) # calls) self =
     append_transactions L calls
       (after (add_transaction_block L clk self (t_user_id p) (t_transaction_type p)
          (t_amount p)) self)"

fun append_models ::
  "pylib \<Rightarrow> (clock \<times> model_payload) list \<Rightarrow> model_row list \<Rightarrow> model_row list" where
  "append_models L [] rows = rows"
| "append_models L ((clk, p) # calls) rows =
     append_models L calls
       (after (add_model_block L clk rows (mp_model_version p) (mp_accuracy p)
          (mp_training_data_hash p)) rows)"

section \<open>A concrete library for closed examples\<close>

text \<open>
  Closed examples need the library parameters fixed. \<open>demo_digest\<close> is injective
  (its value ends with its argument) and its fourth character is the hexadecimal
  digit of the argument's length, so that a proof-of-work search over it is not
  trivial; \<open>demo_float_repr\<close> writes a decimal expansion of at most 16 fractional
  digits; \<open>demo_json_loads\<close> reads a JSON array of strings that need no escape and
  rejects every other text.
\<close>

definition demo_digest :: "string \<Rightarrow> string" where
  "demo_digest s = ''000'' @ [hexdigit (length s)] @ s"

fun frac_digits :: "nat \<Rightarrow> nat \<Rightarrow> nat \<Rightarrow> string" where
  "frac_digits 0 r den = []"
| "frac_digits (Suc k) r den =
     (if r = 0 then [] else digit_char (10 * r div den) # frac_digits k (10 * r mod den) den)"

definition demo_float_repr :: "rat \<Rightarrow> string" where
  "demo_float_repr q =
     (let a = fst (quotient_of q); b = snd (quotient_of q);
          n = nat \<bar>a\<bar>; d = nat b;
          f = frac_digits 16 (n mod d) d
      in (if a < 0 then ''-'' else []) @ str_nat (n div d) @ ''.'' @ (if f = [] then ''0'' else f))"

fun read_str :: "string \<Rightarrow> string \<Rightarrow> (string \<times> string) option" where
  "read_str acc [] = None"
| "read_str acc (c # cs) =
     (if c = CHR ''\"'' then Some (rev acc, cs)
      else if esc_char c \<noteq> [c] then None
      else read_str (c # acc) cs)"

fun read_items :: "nat \<Rightarrow> string \<Rightarrow> string list option" where
  "read_items 0 s = None"
| "read_items (Suc fuel) s =
     (if s = '']'' then Some []
      else if take 3 s = '', \"'' then
        (case read_str [] (drop 3 s) of
           None \<Rightarrow> None
         | Some (item, rest) \<Rightarrow> map_option ((#) item) (read_items fuel rest))
      else None)"

definition demo_json_loads :: "string \<Rightarrow> json option" where
  "demo_json_loads s =
     (if s = ''[]'' then Some (JList [])
      else if take 2 s = ''[\"'' then
        (case read_str [] (drop 2 s) of
           None \<Rightarrow> None
         | Some (item, rest) \<Rightarrow>
             map_option (\<lambda>xs. JList (map JStr (item # xs))) (read_items (length s) rest))
      else None)"

definition demo_lib :: pylib where
  "demo_lib = \<lparr>sha256 = demo_digest, float_repr = demo_float_repr, json_loads = demo_json_loads\<rparr>"

text \<open>
  Clock readings and ledgers for the examples: a table \<^verbatim>\<open>model_version_blockchain\<close>
  of one row, and a transaction ledger of four blocks, each sealed over its own
  fields, whose third block does not link to the second.
\<close>

definition demo_clock :: clock where
  "demo_clock =
     \<lparr>py_now = \<lparr>year = 2024, month = 3, day = 9, hour = 17, minute = 30, second = 5,
                 microsecond = 250000\<rparr>,
      db_now = \<lparr>year = 2024, month = 3, day = 9, hour = 12, minute = 0, second = 5,
                 microsecond = 0\<rparr>\<rparr>"

definition demo_model_row :: mv_row where
  "demo_model_row =
     \<lparr>mv_id = 1, mv_block_hash = ''ab12'', mv_previous_hash = genesis,
      mv_model_version = ''v2.0'', mv_accuracy = 9 / 10, mv_training_data_hash = ''d0'',
      mv_algorithm_hash = ''a0'', mv_deployment_timestamp = ''2024-03-09 12:00:05'',
      mv_nonce = 7, mv_verified = True\<rparr>"

definition model_only_chain :: credit_blockchain where
  "model_only_chain = init_blockchain\<lparr>model_version_blockchain := [demo_model_row]\<rparr>"

definition demo_tx0 :: tx_row where
  "demo_tx0 =
     \<lparr>tx_id = 1, tx_block_hash = demo_digest (genesis @ ''7a1f'' @ ''c93e'' @ ''4''),
      tx_previous_hash = genesis, tx_user_id = 1, tx_transaction_type = ''repayment'',
      tx_amount = 2500, tx_transaction_hash = ''7a1f'', tx_merkle_root = ''c93e'',
      tx_nonce = 4, tx_timestamp = ''2024-03-09 12:00:05'', tx_verified = True\<rparr>"

definition demo_tx1 :: tx_row where
  "demo_tx1 =
     \<lparr>tx_id = 2,
      tx_block_hash = demo_digest (tx_block_hash demo_tx0 @ ''51b2'' @ ''0e44'' @ ''12''),
      tx_previous_hash = tx_block_hash demo_tx0, tx_user_id = 1,
      tx_transaction_type = ''loan'', tx_amount = 40000, tx_transaction_hash = ''51b2'',
      tx_merkle_root = ''0e44'', tx_nonce = 12, tx_timestamp = ''2024-03-09 12:10:00'',
      tx_verified = True\<rparr>"

definition demo_tx2 :: tx_row where
  "demo_tx2 =
     \<lparr>tx_id = 3, tx_block_hash = demo_digest (''deadbeef'' @ ''88aa'' @ ''3c3c'' @ ''0''),
      tx_previous_hash = ''deadbeef'', tx_user_id = 2, tx_transaction_type = ''loan'',
      tx_amount = 900000, tx_transaction_hash = ''88aa'', tx_merkle_root = ''3c3c'',
      tx_nonce = 0, tx_timestamp = ''2024-03-09 12:20:00'', tx_verified = True\<rparr>"

definition demo_tx3 :: tx_row where
  "demo_tx3 =
     \<lparr>tx_id = 4,
      tx_block_hash = demo_digest (tx_block_hash demo_tx2 @ ''19f0'' @ ''77d1'' @ ''31''),
      tx_previous_hash = tx_block_hash demo_tx2, tx_user_id = 1,
      tx_transaction_type = ''repayment'', tx_amount = 100, tx_transaction_hash = ''19f0'',
      tx_merkle_root = ''77d1'', tx_nonce = 31, tx_timestamp = ''2024-03-09 12:30:00'',
      tx_verified = True\<rparr>"

definition broken_chain :: credit_blockchain where
  "broken_chain = init_blockchain\<lparr>transaction_blockchain := [demo_tx0, demo_tx1, demo_tx2, demo_tx3]\<rparr>"

text \<open>
  Payloads for the examples; the first credit-score payload is the one of the
  specification's example.
\<close>

definition demo_credit_1 :: credit_payload where
  "demo_credit_1 =
     \<lparr>p_user_id = 1, p_credit_score = 720, p_model_version = ''v1'',
      p_prediction_confidence = 91 / 100, p_risk_factors = [''high_debt_ratio'']\<rparr>"

definition demo_model_1 :: model_payload where
  "demo_model_1 = \<lparr>mp_model_version = ''v1.0'', mp_accuracy = 9 / 10, mp_training_data_hash = ''d0''\<rparr>"

definition demo_model_2 :: model_payload where
  "demo_model_2 = \<lparr>mp_model_version = ''v2.0'', mp_accuracy = 9 / 10, mp_training_data_hash = ''d1''\<rparr>"

definition demo_transaction_1 :: transaction_payload where
  "demo_transaction_1 = \<lparr>t_user_id = 1, t_transaction_type = ''repayment'', t_amount = 2500\<rparr>"

section \<open>Properties of the Merkle root and of proof of work\<close>

lemma replicate_numeral_Cons: "replicate (numeral k) x = x # replicate (pred_numeral k) x"
  by (simp add: numeral_eq_Suc)

lemmas demo_eval = meets_target_def demo_lib_def demo_digest_def startswith_def hexdigit_def
  digit_char_def replicate_numeral_Cons

lemma pow_loop_found:
  "nonce \<le> n \<Longrightarrow> n \<le> 1000000 \<Longrightarrow> meets_target L d b n \<Longrightarrow>
   (\<forall>m. nonce \<le> m \<and> m < n \<longrightarrow> \<not> meets_target L d b m) \<Longrightarrow>
   pow_loop L d b nonce = (n, n)"
proof (induction L d b nonce rule: pow_loop.induct)
  case (1 L d b nonce)
  show ?case
  proof (cases "meets_target L d b nonce")
    case True
    with "1.prems"(1,4) have "nonce = n"
      by (metis le_neq_implies_less order_refl)
    with True show ?thesis by (subst pow_loop.simps) simp
  next
    case False
    with "1.prems"(1,3) have lt: "nonce < n"
      by (metis le_neq_implies_less)
    then have le: "nonce + 1 \<le> n" by linarith
    have cap: "\<not> nonce + 1 > 1000000" using lt "1.prems"(2) by linarith
    have rest: "\<forall>m. nonce + 1 \<le> m \<and> m < n \<longrightarrow> \<not> meets_target L d b m"
      using "1.prems"(4) by auto
    have rec: "pow_loop L d b (nonce + 1) = (n, n)"
      using "1.IH" [OF False cap le "1.prems"(2) "1.prems"(3) rest] .
    from False cap rec show ?thesis
      by (subst pow_loop.simps) (simp only: if_False)
  qed
qed

lemma pow_loop_exhausted:
  "nonce \<le> 1000000 \<Longrightarrow>
   (\<forall>m. nonce \<le> m \<and> m \<le> 1000000 \<longrightarrow> \<not> meets_target L d b m) \<Longrightarrow>
   pow_loop L d b nonce = (1000001, 1000000)"
proof (induction L d b nonce rule: pow_loop.induct)
  case (1 L d b nonce)
  from "1.prems" have nm: "\<not> meets_target L d b nonce" by blast
  show ?case
  proof (cases "nonce + 1 > 1000000")
    case True
    with "1.prems"(1) have "nonce = 1000000" by linarith
    with nm show ?thesis by (subst pow_loop.simps) simp
  next
    case False
    then have le: "nonce + 1 \<le> 1000000" by linarith
    have rest: "\<forall>m. nonce + 1 \<le> m \<and> m \<le> 1000000 \<longrightarrow> \<not> meets_target L d b m"
      using "1.prems"(2) by auto
    have rec: "pow_loop L d b (nonce + 1) = (1000001, 1000000)"
      using "1.IH" [OF nm False le rest] .
    from nm False rec show ?thesis
      by (subst pow_loop.simps) (simp only: if_False)
  qed
qed

text \<open>
  C4. Whenever some nonce from 0 to 1000000 meets the difficulty target,
  \<^verbatim>\<open>proof_of_work\<close> returns the least natural number whose digest
  \<^verbatim>\<open>sha256(block_data + str(nonce))\<close> starts with \<open>difficulty\<close> characters
  \<^verbatim>\<open>'0'\<close>, and the returned nonce meets the target.
\<close>

theorem proof_of_work_least:
  assumes "n \<le> 1000000" and "meets_target L d block_data n"
  shows "proof_of_work L d block_data = (LEAST m. meets_target L d block_data m)
         \<and> meets_target L d block_data (proof_of_work L d block_data)"
proof -
  let ?P = "meets_target L d block_data"
  let ?n0 = "LEAST m. ?P m"
  have p0: "?P ?n0" using assms(2) by (rule LeastI)
  have le: "?n0 \<le> n" using assms(2) by (rule Least_le)
  have below: "\<forall>m. 0 \<le> m \<and> m < ?n0 \<longrightarrow> \<not> ?P m"
    using not_less_Least by blast
  have cap: "?n0 \<le> 1000000" using le assms(1) by (rule order_trans)
  have "pow_loop L d block_data 0 = (?n0, ?n0)"
    by (rule pow_loop_found [OF _ cap p0 below]) simp
  with p0 show ?thesis by (simp add: proof_of_work_def)
qed

lemma demo_pow_value: "proof_of_work demo_lib 4 ''block-data-001'' = 10"
proof -
  have hit: "meets_target demo_lib 4 ''block-data-001'' 10"
    by (simp add: demo_eval str_nat.simps)
  have miss: "\<forall>m. 0 \<le> m \<and> m < 10 \<longrightarrow> \<not> meets_target demo_lib 4 ''block-data-001'' m"
    by (simp add: demo_eval str_nat.simps)
  have "pow_loop demo_lib 4 ''block-data-001'' 0 = (10, 10)"
    by (rule pow_loop_found [OF _ _ hit miss]) simp_all
  then show ?thesis by (simp add: proof_of_work_def)
qed

theorem proof_of_work_least_witness:
  "meets_target demo_lib 4 ''block-data-001'' 10
   \<and> proof_of_work demo_lib 4 ''block-data-001'' =
       (LEAST m. meets_target demo_lib 4 ''block-data-001'' m)
   \<and> meets_target demo_lib 4 ''block-data-001'' (proof_of_work demo_lib 4 ''block-data-001'')
   \<and> proof_of_work demo_lib 4 ''block-data-001'' = 10"
proof -
  have cap: "(10::nat) \<le> 1000000" by simp
  have hit: "meets_target demo_lib 4 ''block-data-001'' 10"
    by (simp add: demo_eval str_nat.simps)
  from proof_of_work_least [OF cap hit] hit demo_pow_value show ?thesis by simp
qed

text \<open>
  C5, as the code has it. If no nonce from 0 to 1000000 meets the target,
  \<^verbatim>\<open>proof_of_work\<close> terminates without raising and returns 1000001: the loop
  increments the nonce after the last digest it computes, the one of nonce 1000000,
  and leaves with the incremented value, whose digest it never computes.
\<close>

theorem proof_of_work_exhausted:
  assumes "\<forall>m. m \<le> 1000000 \<longrightarrow> \<not> meets_target L d block_data m"
  shows "proof_of_work L d block_data = 1000001 \<and> last_attempted L d block_data = 1000000"
proof -
  have "pow_loop L d block_data 0 = (1000001, 1000000)"
    using assms by (intro pow_loop_exhausted) simp_all
  then show ?thesis by (simp add: proof_of_work_def last_attempted_def)
qed

theorem proof_of_work_exhausted_witness:
  "proof_of_work demo_lib 6 ''abc'' = 1000001
   \<and> last_attempted demo_lib 6 ''abc'' = 1000000"
proof -
  have none: "\<forall>m. m \<le> 1000000 \<longrightarrow> \<not> meets_target demo_lib 6 ''abc'' m"
    by (simp add: demo_eval)
  from proof_of_work_exhausted [OF none] show ?thesis .
qed

text \<open>
  The claim as stated fails: with a target no digest meets, the value returned is not
  the last attempted nonce.
\<close>

theorem proof_of_work_last_attempt_counterexample:
  "proof_of_work demo_lib 5 ''x'' = 1000001
   \<and> last_attempted demo_lib 5 ''x'' = 1000000
   \<and> proof_of_work demo_lib 5 ''x'' \<noteq> last_attempted demo_lib 5 ''x''"
proof -
  have none: "\<forall>m. 0 \<le> m \<and> m \<le> 1000000 \<longrightarrow> \<not> meets_target demo_lib 5 ''x'' m"
    by (simp add: demo_eval)
  have "pow_loop demo_lib 5 ''x'' 0 = (1000001, 1000000)"
    by (rule pow_loop_exhausted [OF _ none]) simp
  then show ?thesis by (simp add: proof_of_work_def last_attempted_def)
qed

text \<open>
  A target longer than every digest is never met: with SHA-256's 64 hexadecimal
  characters, a difficulty of 65 exhausts the search whatever the block data is.
\<close>

lemma proof_of_work_unreachable:
  assumes "\<forall>s. length (sha256 L s) < d"
  shows "proof_of_work L d block_data = 1000001 \<and> last_attempted L d block_data = 1000000"
proof -
  have "\<not> meets_target L d block_data m" for m
  proof
    assume "meets_target L d block_data m"
    then have "take d (sha256 L (block_data @ str_nat m)) = replicate d CHR ''0''"
      by (simp add: meets_target_def startswith_def)
    then have "length (take d (sha256 L (block_data @ str_nat m))) = d"
      by simp
    then have "d \<le> length (sha256 L (block_data @ str_nat m))"
      by simp
    moreover have "length (sha256 L (block_data @ str_nat m)) < d"
      using assms by blast
    ultimately show False by linarith
  qed
  then have "\<forall>m. 0 \<le> m \<and> m \<le> 1000000 \<longrightarrow> \<not> meets_target L d block_data m" by simp
  then have "pow_loop L d block_data 0 = (1000001, 1000000)"
    by (intro pow_loop_exhausted) simp_all
  then show ?thesis by (simp add: proof_of_work_def last_attempted_def)
qed

text \<open>
  C6, as the code has it. \<^verbatim>\<open>calculate_merkle_root\<close> returns the digest of the empty
  string on no leaf and the digest of the leaf on one leaf. On two leaves it hashes
  their concatenation and then, the list now having one element, hashes that digest
  again: the leaves are not hashed one by one. On three leaves the last leaf is paired
  with itself, so the root is that of the four leaves \<open>a, b, c, c\<close>.
\<close>

theorem merkle_root_cases:
  "calculate_merkle_root L [] = sha256 L []
   \<and> calculate_merkle_root L [x] = sha256 L x
   \<and> calculate_merkle_root L [a, b] = sha256 L (sha256 L (a @ b))
   \<and> calculate_merkle_root L [a, b, c] = calculate_merkle_root L [a, b, c, c]
   \<and> calculate_merkle_root L [a, b, c] =
       sha256 L (sha256 L (sha256 L (a @ b) @ sha256 L (c @ c)))"
proof -
  have e: "calculate_merkle_root L [] = sha256 L []"
    by (subst calculate_merkle_root.simps) simp
  have s: "\<And>y. calculate_merkle_root L [y] = sha256 L y"
    by (subst calculate_merkle_root.simps) simp
  have t: "\<And>y z. calculate_merkle_root L [y, z] = sha256 L (sha256 L (y @ z))"
    by (subst calculate_merkle_root.simps) (simp add: s)
  have three: "calculate_merkle_root L [a, b, c] =
       sha256 L (sha256 L (sha256 L (a @ b) @ sha256 L (c @ c)))"
    by (subst calculate_merkle_root.simps) (simp add: t)
  have four: "calculate_merkle_root L [a, b, c, c] =
       sha256 L (sha256 L (sha256 L (a @ b) @ sha256 L (c @ c)))"
    by (subst calculate_merkle_root.simps) (simp add: t)
  from e s t three four show ?thesis by simp
qed

text \<open>
  The claim's value for two leaves, the digest of the two leaf digests concatenated,
  is not what the code computes.
\<close>

theorem merkle_two_leaves_counterexample:
  "calculate_merkle_root demo_lib [''a'', ''b''] \<noteq>
     sha256 demo_lib (sha256 demo_lib ''a'' @ sha256 demo_lib ''b'')"
  by (simp add: calculate_merkle_root.simps demo_lib_def demo_digest_def)

section \<open>Properties of verification\<close>

definition first_break :: "string \<Rightarrow> block list \<Rightarrow> nat \<Rightarrow> bool" where
  "first_break blockchain_type blocks i =
     (0 < i \<and> i < length blocks
      \<and> linkage_broken blockchain_type (blocks ! i) (blocks ! (i - 1))
      \<and> (\<forall>j. 0 < j \<and> j < i \<longrightarrow>
            \<not> linkage_broken blockchain_type (blocks ! j) (blocks ! (j - 1))))"

lemma verify_loop_none_verified:
  "\<forall>b \<in> set rest. \<not> verify_single_block L b kind \<Longrightarrow>
   fst (verify_loop L kind blocks i rest v) = v"
  by (induction rest arbitrary: i) (simp_all add: Let_def)

lemma verify_single_other_kind:
  "kind \<noteq> ''credit_score'' \<Longrightarrow> kind \<noteq> ''transaction'' \<Longrightarrow>
   \<not> verify_single_block L blk kind"
  by (simp add: verify_single_block_def)

text \<open>
  C8. If the table of the requested kind has no row,
  \<^verbatim>\<open>verify_blockchain_integrity\<close> returns exactly
  \<^verbatim>\<open>valid=True, total_blocks=0, verified_blocks=0, integrity_score=1.0\<close>; the
  loop is not entered, so no block is examined, and the database is left as it was.
  \<^verbatim>\<open>SimpleBlockchain.verify_blockchain\<close> returns the same on its empty table.
\<close>

theorem verify_empty_ledger:
  assumes "fetch_blocks self kind = []"
  shows "verify_blockchain_integrity L clk self kind =
           (\<lparr>valid = True, total_blocks = 0, verified_blocks = 0, integrity_score = 1,
             verification_hash = None\<rparr>, self)
         \<and> blocks_examined L self kind = 0
         \<and> verify_blockchain L [] =
           Some \<lparr>valid = True, total_blocks = 0, verified_blocks = 0, integrity_score = 1,
                 verification_hash = None\<rparr>"
  using assms
  by (simp add: verify_blockchain_integrity_def blocks_examined_def verify_blockchain_def)

theorem verify_empty_ledger_witness:
  "verify_blockchain_integrity demo_lib demo_clock init_blockchain ''credit_score'' =
           (\<lparr>valid = True, total_blocks = 0, verified_blocks = 0, integrity_score = 1,
             verification_hash = None\<rparr>, init_blockchain)
         \<and> blocks_examined demo_lib init_blockchain ''credit_score'' = 0
         \<and> verify_blockchain demo_lib [] =
           Some \<lparr>valid = True, total_blocks = 0, verified_blocks = 0, integrity_score = 1,
                 verification_hash = None\<rparr>"
proof -
  have "fetch_blocks init_blockchain ''credit_score'' = []"
    by (simp add: fetch_blocks_def init_blockchain_def)
  from verify_empty_ledger [OF this] show ?thesis .
qed

text \<open>
  C10. For every \<^verbatim>\<open>blockchain_type\<close> other than \<^verbatim>\<open>'credit_score'\<close> and
  \<^verbatim>\<open>'transaction'\<close>, \<^verbatim>\<open>_verify_single_block\<close> returns \<^verbatim>\<open>False\<close> for
  every block, and on a non-empty table \<^verbatim>\<open>verify_blockchain_integrity\<close> returns
  \<^verbatim>\<open>verified_blocks=0\<close>, \<^verbatim>\<open>integrity_score=0.0\<close> and \<^verbatim>\<open>valid=False\<close>,
  whatever the rows hold.
\<close>

theorem other_kinds_never_verified:
  assumes "kind \<noteq> ''credit_score''" and "kind \<noteq> ''transaction''"
    and "fetch_blocks self kind \<noteq> []"
  shows "\<not> verify_single_block L blk kind
         \<and> verified_blocks (fst (verify_blockchain_integrity L clk self kind)) = 0
         \<and> integrity_score (fst (verify_blockchain_integrity L clk self kind)) = 0
         \<and> \<not> valid (fst (verify_blockchain_integrity L clk self kind))
         \<and> total_blocks (fst (verify_blockchain_integrity L clk self kind)) =
             length (fetch_blocks self kind)"
proof -
  have none: "\<forall>b \<in> set (fetch_blocks self kind). \<not> verify_single_block L b kind"
    using assms(1,2) by (simp add: verify_single_other_kind)
  have "fst (verify_loop L kind (fetch_blocks self kind) 0 (fetch_blocks self kind) 0) = 0"
    using none by (rule verify_loop_none_verified)
  with assms show ?thesis
    by (simp add: verify_blockchain_integrity_def Let_def verify_single_other_kind)
qed

theorem other_kinds_never_verified_witness:
  "\<not> verify_single_block demo_lib (ModelBlock demo_model_row) ''model_version''
   \<and> verified_blocks (fst (verify_blockchain_integrity demo_lib demo_clock model_only_chain ''model_version'')) = 0
   \<and> integrity_score (fst (verify_blockchain_integrity demo_lib demo_clock model_only_chain ''model_version'')) = 0
   \<and> \<not> valid (fst (verify_blockchain_integrity demo_lib demo_clock model_only_chain ''model_version''))
   \<and> total_blocks (fst (verify_blockchain_integrity demo_lib demo_clock model_only_chain ''model_version'')) = 1"
proof -
  have k1: "''model_version'' \<noteq> ''credit_score''" by simp
  have k2: "''model_version'' \<noteq> ''transaction''" by simp
  have f: "fetch_blocks model_only_chain ''model_version'' = [ModelBlock demo_model_row]"
    by (simp add: fetch_blocks_def model_only_chain_def init_blockchain_def)
  then have ne: "fetch_blocks model_only_chain ''model_version'' \<noteq> []" by simp
  from other_kinds_never_verified [OF k1 k2 ne, of demo_lib "ModelBlock demo_model_row" demo_clock] f
  show ?thesis by simp
qed

lemma verify_loop_break:
  assumes "0 < k" and "k < length blocks"
    and "linkage_broken kind (blocks ! k) (blocks ! (k - 1))"
    and "\<forall>j. 0 < j \<and> j < k \<longrightarrow> \<not> linkage_broken kind (blocks ! j) (blocks ! (j - 1))"
  shows "i \<le> k \<Longrightarrow>
         verify_loop L kind blocks i (drop i blocks) v =
           (v + length (filter (\<lambda>b. verify_single_block L b kind) (take (k + 1 - i) (drop i blocks))),
            k + 1)"
proof (induction n \<equiv> "k - i" arbitrary: i v)
  case 0
  then have ik: "i = k" by simp
  have d: "drop k blocks = blocks ! k # drop (Suc k) blocks"
    using assms(2) by (simp add: Cons_nth_drop_Suc)
  show ?case using assms(1,3) by (simp add: ik d Let_def)
next
  case (Suc n)
  then have lt: "i < k" by simp
  then have il: "i < length blocks" using assms(2) by simp
  have d: "drop i blocks = blocks ! i # drop (Suc i) blocks"
    using il by (simp add: Cons_nth_drop_Suc)
  have nb: "\<not> (0 < i \<and> linkage_broken kind (blocks ! i) (blocks ! (i - 1)))"
    using assms(4) lt by blast
  have n: "n = k - Suc i" using Suc.hyps(2) by simp
  have le: "Suc i \<le> k" using lt by simp
  have t: "k + 1 - i = Suc (k + 1 - Suc i)" using lt by simp
  have tk: "take (k + 1 - i) (drop i blocks) =
      blocks ! i # take (k + 1 - Suc i) (drop (Suc i) blocks)"
    by (subst d, subst t) simp
  have step: "verify_loop L kind blocks i (drop i blocks) v =
      verify_loop L kind blocks (Suc i) (drop (Suc i) blocks)
        (if verify_single_block L (blocks ! i) kind then v + 1 else v)"
    using nb by (subst d) (auto simp: Let_def)
  show ?case
    unfolding step tk Suc.hyps(1) [OF n le] by simp
qed

text \<open>
  C2, as the code has it. When the first linkage mismatch is at index \<open>i\<close>, the loop
  examines the blocks of index 0 to \<open>i\<close> and no later one, \<^verbatim>\<open>verified_blocks\<close>
  counts the blocks among these whose hash is recomputed, and \<^verbatim>\<open>integrity_score\<close>
  is \<^verbatim>\<open>verified_blocks\<close> divided by \<^verbatim>\<open>total_blocks\<close>, which is the number of
  all rows of the table, set before the loop; \<^verbatim>\<open>valid\<close> is true exactly when the
  score is 1.
\<close>

theorem verify_stops_at_first_break:
  assumes "first_break kind (fetch_blocks self kind) i"
  shows "blocks_examined L self kind = i + 1
     \<and> verified_blocks (fst (verify_blockchain_integrity L clk self kind)) =
         length (filter (\<lambda>b. verify_single_block L b kind) (take (i + 1) (fetch_blocks self kind)))
     \<and> total_blocks (fst (verify_blockchain_integrity L clk self kind)) =
         length (fetch_blocks self kind)
     \<and> integrity_score (fst (verify_blockchain_integrity L clk self kind)) =
         of_nat (verified_blocks (fst (verify_blockchain_integrity L clk self kind)))
           / of_nat (length (fetch_blocks self kind))
     \<and> valid (fst (verify_blockchain_integrity L clk self kind)) =
         (integrity_score (fst (verify_blockchain_integrity L clk self kind)) = 1)"
proof -
  let ?bs = "fetch_blocks self kind"
  from assms have a: "0 < i" "i < length ?bs"
    "linkage_broken kind (?bs ! i) (?bs ! (i - 1))"
    "\<forall>j. 0 < j \<and> j < i \<longrightarrow> \<not> linkage_broken kind (?bs ! j) (?bs ! (j - 1))"
    by (simp_all add: first_break_def)
  have "verify_loop L kind ?bs 0 (drop 0 ?bs) 0 =
      (0 + length (filter (\<lambda>b. verify_single_block L b kind) (take (i + 1 - 0) (drop 0 ?bs))), i + 1)"
    by (rule verify_loop_break [OF a]) simp
  then have loop: "verify_loop L kind ?bs 0 ?bs 0 =
      (length (filter (\<lambda>b. verify_single_block L b kind) (take (i + 1) ?bs)), i + 1)"
    by simp
  have ne: "?bs \<noteq> []" using a(2) by auto
  show ?thesis
    using ne loop by (simp add: verify_blockchain_integrity_def blocks_examined_def Let_def)
qed

lemmas demo_rows = demo_tx0_def demo_tx1_def demo_tx2_def demo_tx3_def

lemma broken_chain_blocks:
  "fetch_blocks broken_chain ''transaction'' =
     [TxBlock demo_tx0, TxBlock demo_tx1, TxBlock demo_tx2, TxBlock demo_tx3]"
  by (simp add: fetch_blocks_def broken_chain_def init_blockchain_def)

lemma demo_tx_verified:
  "verify_single_block demo_lib (TxBlock demo_tx0) ''transaction''"
  "verify_single_block demo_lib (TxBlock demo_tx1) ''transaction''"
  "verify_single_block demo_lib (TxBlock demo_tx2) ''transaction''"
  by (simp_all add: verify_single_block_def demo_rows demo_lib_def py_str_def str_nat.simps
      digit_char_def)

lemma broken_chain_first_break:
  "first_break ''transaction'' (fetch_blocks broken_chain ''transaction'') 2"
proof -
  have j: "j = 1" if "0 < j" "j < 2" for j :: nat using that by simp
  have l1: "\<not> linkage_broken ''transaction'' (TxBlock demo_tx1) (TxBlock demo_tx0)"
    by (simp add: linkage_broken_def demo_tx1_def)
  have l2: "linkage_broken ''transaction'' (TxBlock demo_tx2) (TxBlock demo_tx1)"
    by (simp add: linkage_broken_def demo_rows demo_digest_def)
  show ?thesis
    unfolding first_break_def broken_chain_blocks using l1 l2 by (auto dest: j)
qed

theorem verify_stops_at_first_break_witness:
  "blocks_examined demo_lib broken_chain ''transaction'' = 3
   \<and> verified_blocks (fst (verify_blockchain_integrity demo_lib demo_clock broken_chain ''transaction'')) = 3
   \<and> total_blocks (fst (verify_blockchain_integrity demo_lib demo_clock broken_chain ''transaction'')) = 4
   \<and> integrity_score (fst (verify_blockchain_integrity demo_lib demo_clock broken_chain ''transaction'')) = 3 / 4
   \<and> \<not> valid (fst (verify_blockchain_integrity demo_lib demo_clock broken_chain ''transaction''))"
  using verify_stops_at_first_break [OF broken_chain_first_break, of demo_lib demo_clock]
  by (simp add: broken_chain_blocks demo_tx_verified)

lemma broken_chain_loop:
  "verify_loop demo_lib ''transaction'' (fetch_blocks broken_chain ''transaction'') 0
     (fetch_blocks broken_chain ''transaction'') 0 = (3, 3)"
proof -
  have "verify_loop demo_lib ''transaction'' (fetch_blocks broken_chain ''transaction'') 0
      (drop 0 (fetch_blocks broken_chain ''transaction'')) 0 =
      (0 + length (filter (\<lambda>b. verify_single_block demo_lib b ''transaction'')
         (take (2 + 1 - 0) (drop 0 (fetch_blocks broken_chain ''transaction'')))), 2 + 1)"
    using broken_chain_first_break unfolding first_break_def
    by (intro verify_loop_break) simp_all
  then show ?thesis by (simp add: broken_chain_blocks demo_tx_verified)
qed

text \<open>
  The claim as stated fails: the score is not the quotient by the number of blocks
  examined. Here the third of four blocks is mislinked, three blocks are examined and
  all three verify, and the score is 3/4.
\<close>

theorem integrity_score_examined_counterexample:
  "blocks_examined demo_lib broken_chain ''transaction'' = 3
   \<and> verified_blocks (fst (verify_blockchain_integrity demo_lib demo_clock broken_chain ''transaction'')) = 3
   \<and> integrity_score (fst (verify_blockchain_integrity demo_lib demo_clock broken_chain ''transaction'')) = 3 / 4
   \<and> integrity_score (fst (verify_blockchain_integrity demo_lib demo_clock broken_chain ''transaction''))
       \<noteq> of_nat (verified_blocks (fst (verify_blockchain_integrity demo_lib demo_clock broken_chain ''transaction'')))
           / of_nat (blocks_examined demo_lib broken_chain ''transaction'')"
  using broken_chain_loop
  by (simp add: verify_blockchain_integrity_def blocks_examined_def Let_def broken_chain_blocks)

text \<open>
  C7, as the code has it. On a non-empty table a call to
  \<^verbatim>\<open>verify_blockchain_integrity\<close> appends exactly one row to
  \<^verbatim>\<open>blockchain_verification_log\<close>, holding the kind, the two counts, the score and
  the digest of the canonical JSON of these fields and the timestamp, and returns
  that digest as \<^verbatim>\<open>verification_hash\<close>; nothing else in the database changes.
  On an empty table the call returns before the logging code: no row is written and
  the result has no \<^verbatim>\<open>verification_hash\<close>.
\<close>

theorem verification_record_logged:
  "(fetch_blocks self kind = [] \<longrightarrow>
      snd (verify_blockchain_integrity L clk self kind) = self
      \<and> verification_hash (fst (verify_blockchain_integrity L clk self kind)) = None)
   \<and> (fetch_blocks self kind \<noteq> [] \<longrightarrow>
      (let res = fst (verify_blockchain_integrity L clk self kind);
           self' = snd (verify_blockchain_integrity L clk self kind);
           vhash = sha256 L (json_dumps L True
             (verification_data kind (total_blocks res) (verified_blocks res)
                (integrity_score res) (isoformat (py_now clk))));
           vlog = blockchain_verification_log self
       in self' = self\<lparr>blockchain_verification_log := vlog @
            [\<lparr>log_id = (if vlog = [] then 1 else log_id (last vlog) + 1),
              log_blockchain_type = kind,
              log_total_blocks = total_blocks res,
              log_verified_blocks = verified_blocks res,
              log_integrity_score = integrity_score res,
              log_verification_timestamp = current_timestamp (db_now clk),
              log_verification_hash = vhash\<rparr>]\<rparr>
          \<and> verification_hash res = Some vhash))"
  by (simp add: verify_blockchain_integrity_def Let_def)

theorem verification_record_logged_witness:
  "snd (verify_blockchain_integrity demo_lib demo_clock init_blockchain ''credit_score'') = init_blockchain
   \<and> verification_hash (fst (verify_blockchain_integrity demo_lib demo_clock init_blockchain ''credit_score'')) = None
   \<and> length (blockchain_verification_log
        (snd (verify_blockchain_integrity demo_lib demo_clock broken_chain ''transaction''))) = 1
   \<and> verification_hash (fst (verify_blockchain_integrity demo_lib demo_clock broken_chain ''transaction'')) =
       Some (log_verification_hash (last (blockchain_verification_log
         (snd (verify_blockchain_integrity demo_lib demo_clock broken_chain ''transaction'')))))"
proof -
  have e: "fetch_blocks init_blockchain ''credit_score'' = []"
    by (simp add: fetch_blocks_def init_blockchain_def)
  have ne: "fetch_blocks broken_chain ''transaction'' \<noteq> []"
    by (simp add: broken_chain_blocks)
  have l: "blockchain_verification_log broken_chain = []"
    by (simp add: broken_chain_def init_blockchain_def)
  from verification_record_logged [of init_blockchain "''credit_score''" demo_lib demo_clock] e
  have a: "snd (verify_blockchain_integrity demo_lib demo_clock init_blockchain ''credit_score'') = init_blockchain
   \<and> verification_hash (fst (verify_blockchain_integrity demo_lib demo_clock init_blockchain ''credit_score'')) = None"
    by blast
  from verification_record_logged [of broken_chain "''transaction''" demo_lib demo_clock] ne
  have b: "(let res = fst (verify_blockchain_integrity demo_lib demo_clock broken_chain ''transaction'');
           self' = snd (verify_blockchain_integrity demo_lib demo_clock broken_chain ''transaction'');
           vhash = sha256 demo_lib (json_dumps demo_lib True
             (verification_data ''transaction'' (total_blocks res) (verified_blocks res)
                (integrity_score res) (isoformat (py_now demo_clock))));
           vlog = blockchain_verification_log broken_chain
       in self' = broken_chain\<lparr>blockchain_verification_log := vlog @
            [\<lparr>log_id = (if vlog = [] then 1 else log_id (last vlog) + 1),
              log_blockchain_type = ''transaction'',
              log_total_blocks = total_blocks res,
              log_verified_blocks = verified_blocks res,
              log_integrity_score = integrity_score res,
              log_verification_timestamp = current_timestamp (db_now demo_clock),
              log_verification_hash = vhash\<rparr>]\<rparr>
          \<and> verification_hash res = Some vhash)"
    by blast
  from b have c: "length (blockchain_verification_log
        (snd (verify_blockchain_integrity demo_lib demo_clock broken_chain ''transaction''))) = 1
   \<and> verification_hash (fst (verify_blockchain_integrity demo_lib demo_clock broken_chain ''transaction'')) =
       Some (log_verification_hash (last (blockchain_verification_log
         (snd (verify_blockchain_integrity demo_lib demo_clock broken_chain ''transaction'')))))"
    unfolding Let_def l by (elim conjE) simp
  from a c show ?thesis by simp
qed

text \<open>
  The claim as stated fails on the empty ledger: the log stays empty and the result
  carries no hash.
\<close>

theorem empty_ledger_not_logged_counterexample:
  "blockchain_verification_log
     (snd (verify_blockchain_integrity demo_lib demo_clock init_blockchain ''credit_score'')) = []
   \<and> verification_hash
     (fst (verify_blockchain_integrity demo_lib demo_clock init_blockchain ''credit_score'')) = None"
  by (simp add: verify_blockchain_integrity_def fetch_blocks_def init_blockchain_def)

section \<open>Properties of the health check\<close>

lemma fetch_blocks_after_verify:
  "fetch_blocks (snd (verify_blockchain_integrity L c self k)) k' = fetch_blocks self k'"
  by (simp add: verify_blockchain_integrity_def fetch_blocks_def Let_def)

lemma verify_result_depends_on_blocks:
  "fetch_blocks self1 k = fetch_blocks self2 k \<Longrightarrow>
   fst (verify_blockchain_integrity L c self1 k) = fst (verify_blockchain_integrity L c self2 k)"
  by (simp add: verify_blockchain_integrity_def Let_def)

lemma verify_after_verify:
  "fst (verify_blockchain_integrity L c (snd (verify_blockchain_integrity L c0 self k0)) k) =
   fst (verify_blockchain_integrity L c self k)"
  by (rule verify_result_depends_on_blocks) (rule fetch_blocks_after_verify)

text \<open>
  C9, as the code has it. \<^verbatim>\<open>blockchain_health_check\<close> verifies the kinds
  \<^verbatim>\<open>'credit_score'\<close> and \<^verbatim>\<open>'transaction'\<close> only. It reports each of the two as
  healthy exactly when its integrity score is at least 0.95, and the overall status as
  healthy exactly when both are; the model-version and prediction-audit ledgers are
  not looked at.
\<close>

theorem health_check_two_kinds:
  "(let v1 = fst (verify_blockchain_integrity L (clk ''credit_score'') self ''credit_score'');
        v2 = fst (verify_blockchain_integrity L (clk ''transaction'') self ''transaction'');
        h = fst (blockchain_health_check L clk now self)
    in blockchain_health h =
         [(''credit_score'',
           \<lparr>status = (if integrity_score v1 \<ge> 95 / 100 then ''healthy'' else ''degraded''),
            h_integrity_score = integrity_score v1, h_total_blocks = total_blocks v1\<rparr>),
          (''transaction'',
           \<lparr>status = (if integrity_score v2 \<ge> 95 / 100 then ''healthy'' else ''degraded''),
            h_integrity_score = integrity_score v2, h_total_blocks = total_blocks v2\<rparr>)]
       \<and> (overall_status h = ''healthy'') =
           (integrity_score v1 \<ge> 95 / 100 \<and> integrity_score v2 \<ge> 95 / 100)
       \<and> (overall_status h = ''degraded'') =
           (\<not> (integrity_score v1 \<ge> 95 / 100 \<and> integrity_score v2 \<ge> 95 / 100)))"
  by (simp add: blockchain_health_check_def Let_def split_beta verify_after_verify)

text \<open>
  The claim as stated fails: with a model-version ledger whose integrity score is 0,
  the overall status is healthy.
\<close>

theorem health_ignores_model_ledger_counterexample:
  "overall_status (fst (blockchain_health_check demo_lib (\<lambda>k. demo_clock) (py_now demo_clock)
       model_only_chain)) = ''healthy''
   \<and> integrity_score (fst (verify_blockchain_integrity demo_lib demo_clock model_only_chain
       ''model_version'')) = 0
   \<and> map fst (blockchain_health (fst (blockchain_health_check demo_lib (\<lambda>k. demo_clock)
       (py_now demo_clock) model_only_chain))) = [''credit_score'', ''transaction'']"
proof -
  have m: "fetch_blocks model_only_chain ''model_version'' = [ModelBlock demo_model_row]"
    by (simp add: fetch_blocks_def model_only_chain_def init_blockchain_def)
  have s: "integrity_score (fst (verify_blockchain_integrity demo_lib demo_clock model_only_chain
       ''model_version'')) = 0"
    by (simp add: verify_blockchain_integrity_def m Let_def verify_single_block_def)
  have c: "fetch_blocks model_only_chain ''credit_score'' = []"
    by (simp add: fetch_blocks_def model_only_chain_def init_blockchain_def)
  have t: "fetch_blocks model_only_chain ''transaction'' = []"
    by (simp add: fetch_blocks_def model_only_chain_def init_blockchain_def)
  have v1: "verify_blockchain_integrity demo_lib demo_clock model_only_chain ''credit_score'' =
      (\<lparr>valid = True, total_blocks = 0, verified_blocks = 0, integrity_score = 1,
        verification_hash = None\<rparr>, model_only_chain)"
    using c by (simp add: verify_blockchain_integrity_def)
  have v2: "verify_blockchain_integrity demo_lib demo_clock model_only_chain ''transaction'' =
      (\<lparr>valid = True, total_blocks = 0, verified_blocks = 0, integrity_score = 1,
        verification_hash = None\<rparr>, model_only_chain)"
    using t by (simp add: verify_blockchain_integrity_def)
  show ?thesis using s
    by (simp add: blockchain_health_check_def Let_def v1 v2)
qed

section \<open>Properties of appended ledgers\<close>

subsection \<open>The canonical JSON of a block and its timestamps\<close>

lemma credit_json_head:
  "json_dumps L True (credit_block_data u c m p rf ph ts) =
     ''{\"credit_score\": '' @ py_str c @ '', \"model_version\": '' @ json_string m @
     '', \"prediction_confidence\": '' @ float_repr L p @
     '', \"previous_hash\": '' @ json_string ph @
     '', \"risk_factors\": '' @ json_dumps L True rf @
     '', \"timestamp\": '' @ json_string ts @
     '', \"user_id\": '' @ py_str u @ ''}''"
  by (simp add: credit_block_data_def sort_items_def Let_def json_string_def esc_char_def)

lemma model_json_head:
  "json_dumps L True (model_block_data m a d ph ts) =
     ''{\"accuracy\": '' @ float_repr L a @ '', \"model_version\": '' @ json_string m @
     '', \"previous_hash\": '' @ json_string ph @ '', \"timestamp\": '' @ json_string ts @
     '', \"training_data_hash\": '' @ json_string d @ ''}''"
  by (simp add: model_block_data_def sort_items_def Let_def json_string_def esc_char_def)

lemma digit_char_in: "digit_char n \<in> set ''0123456789''"
  unfolding digit_char_def by (rule nth_mem) simp

lemma esc_digit: "esc_char (digit_char n) = [digit_char n]"
proof -
  have "\<forall>c \<in> set ''0123456789''. esc_char c = [c]"
    by (simp add: esc_char_def)
  with digit_char_in show ?thesis by blast
qed

lemma digit_not_colon: "digit_char n \<noteq> CHR '':''"
proof -
  have "\<forall>c \<in> set ''0123456789''. c \<noteq> CHR '':''"
    by simp
  with digit_char_in show ?thesis by blast
qed

lemma esc_isoformat: "concat (map esc_char (isoformat t)) = isoformat t"
  by (simp add: isoformat_def d2_def d4_def d6_def esc_digit) (simp add: esc_char_def)

lemma esc_current_timestamp: "concat (map esc_char (current_timestamp t)) = current_timestamp t"
  by (simp add: current_timestamp_def d2_def d4_def esc_digit) (simp add: esc_char_def)

lemma timestamp_clash: "A @ isoformat t \<noteq> B @ current_timestamp u"
proof
  assume eq: "A @ isoformat t = B @ current_timestamp u"
  show False
  proof (cases "microsecond t = 0")
    case True
    have "length (isoformat t) = length (current_timestamp u)"
      using True by (simp add: isoformat_def current_timestamp_def d2_def d4_def)
    with eq have "isoformat t = current_timestamp u" by simp
    with True show False
      by (simp add: isoformat_def current_timestamp_def d2_def d4_def)
  next
    case False
    from eq have "rev (A @ isoformat t) = rev (B @ current_timestamp u)" by simp
    with False show False
      by (simp add: isoformat_def current_timestamp_def d2_def d4_def d6_def digit_not_colon)
  qed
qed

subsection \<open>Linkage\<close>

text \<open>
  A ledger is linked from a sentinel when its first block's previous hash is the
  sentinel and every later block's previous hash is the hash of the block before it.
  The pairs are (previous hash, block hash), in ledger order.
\<close>

fun linked :: "string \<Rightarrow> (string \<times> string) list \<Rightarrow> bool" where
  "linked g [] = True"
| "linked g ((previous_hash, block_hash) # rest) = (previous_hash = g \<and> linked block_hash rest)"

lemma linked_snoc:
  "linked g (xs @ [(p, h)]) = (linked g xs \<and> p = (if xs = [] then g else snd (last xs)))"
  by (induction g xs rule: linked.induct) auto

lemma linked_nth:
  "linked g xs \<Longrightarrow> i < length xs \<Longrightarrow>
   fst (xs ! i) = (if i = 0 then g else snd (xs ! (i - 1)))"
proof (induction g xs arbitrary: i rule: linked.induct)
  case (1 g)
  then show ?case by simp
next
  case (2 g p h rest)
  show ?case
  proof (cases i)
    case 0
    with 2 show ?thesis by simp
  next
    case (Suc j)
    with 2 have "fst (rest ! j) = (if j = 0 then h else snd (rest ! (j - 1)))" by simp
    with Suc show ?thesis by (cases j) simp_all
  qed
qed

definition credit_links :: "credit_blockchain \<Rightarrow> (string \<times> string) list" where
  "credit_links self = map (\<lambda>r. (cs_previous_hash r, cs_block_hash r)) (credit_score_blockchain self)"

definition transaction_links :: "credit_blockchain \<Rightarrow> (string \<times> string) list" where
  "transaction_links self = map (\<lambda>r. (tx_previous_hash r, tx_block_hash r)) (transaction_blockchain self)"

definition model_links :: "model_row list \<Rightarrow> (string \<times> string) list" where
  "model_links rows = map (\<lambda>r. (m_previous_hash r, m_block_hash r)) rows"

lemma add_credit_linked:
  "linked genesis (credit_links self) \<Longrightarrow>
   linked genesis (credit_links (after (add_credit_score_block L clk self u c m p rf) self))"
  by (simp add: add_credit_score_block_def after_def Let_def credit_links_def linked_snoc last_map)

lemma add_transaction_linked:
  "linked genesis (transaction_links self) \<Longrightarrow>
   linked genesis (transaction_links (after (add_transaction_block L clk self u t a) self))"
  by (simp add: add_transaction_block_def after_def Let_def transaction_links_def linked_snoc last_map)

lemma add_model_linked:
  "linked ''0'' (model_links rows) \<Longrightarrow>
   linked ''0'' (model_links (after (add_model_block L clk rows m a d) rows))"
  by (simp add: add_model_block_def after_def Let_def model_links_def linked_snoc last_map)

lemma append_credit_scores_linked:
  "linked genesis (credit_links self) \<Longrightarrow>
   linked genesis (credit_links (append_credit_scores L calls self))"
  by (induction L calls self rule: append_credit_scores.induct) (simp_all add: add_credit_linked)

lemma append_transactions_linked:
  "linked genesis (transaction_links self) \<Longrightarrow>
   linked genesis (transaction_links (append_transactions L calls self))"
  by (induction L calls self rule: append_transactions.induct) (simp_all add: add_transaction_linked)

lemma append_models_linked:
  "linked ''0'' (model_links rows) \<Longrightarrow>
   linked ''0'' (model_links (append_models L calls rows))"
  by (induction L calls rows rule: append_models.induct) (simp_all add: add_model_linked)

text \<open>
  C3, as the code has it. In a credit-score or transaction ledger grown from the empty
  ledger by any sequence of appends, the first block's \<^verbatim>\<open>previous_hash\<close> is the
  sentinel of 64 characters \<^verbatim>\<open>'0'\<close>; in the model ledger grown by
  \<^verbatim>\<open>add_model_block\<close> it is the one-character sentinel \<^verbatim>\<open>"0"\<close>. In all
  three, every later block's \<^verbatim>\<open>previous_hash\<close> is the \<^verbatim>\<open>block_hash\<close> of the block
  before it. Prediction-audit records have no such fields.
\<close>

theorem appended_ledgers_linked:
  assumes "credit_score_blockchain self = []" and "transaction_blockchain self = []"
    and "i < length (credit_score_blockchain (append_credit_scores L ccalls self))"
    and "j < length (transaction_blockchain (append_transactions L tcalls self))"
    and "k < length (append_models L mcalls [])"
  shows "cs_previous_hash (credit_score_blockchain (append_credit_scores L ccalls self) ! i) =
           (if i = 0 then replicate 64 CHR ''0''
            else cs_block_hash (credit_score_blockchain (append_credit_scores L ccalls self) ! (i - 1)))
       \<and> tx_previous_hash (transaction_blockchain (append_transactions L tcalls self) ! j) =
           (if j = 0 then replicate 64 CHR ''0''
            else tx_block_hash (transaction_blockchain (append_transactions L tcalls self) ! (j - 1)))
       \<and> m_previous_hash (append_models L mcalls [] ! k) =
           (if k = 0 then ''0'' else m_block_hash (append_models L mcalls [] ! (k - 1)))"
proof -
  have c: "linked genesis (credit_links (append_credit_scores L ccalls self))"
    using assms(1) by (intro append_credit_scores_linked) (simp add: credit_links_def)
  have t: "linked genesis (transaction_links (append_transactions L tcalls self))"
    using assms(2) by (intro append_transactions_linked) (simp add: transaction_links_def)
  have m: "linked ''0'' (model_links (append_models L mcalls []))"
    by (intro append_models_linked) (simp add: model_links_def)
  from linked_nth [OF c, of i] assms(3)
  have c': "cs_previous_hash (credit_score_blockchain (append_credit_scores L ccalls self) ! i) =
           (if i = 0 then genesis
            else cs_block_hash (credit_score_blockchain (append_credit_scores L ccalls self) ! (i - 1)))"
    by (simp add: credit_links_def split: if_splits)
  from linked_nth [OF t, of j] assms(4)
  have t': "tx_previous_hash (transaction_blockchain (append_transactions L tcalls self) ! j) =
           (if j = 0 then genesis
            else tx_block_hash (transaction_blockchain (append_transactions L tcalls self) ! (j - 1)))"
    by (simp add: transaction_links_def split: if_splits)
  from linked_nth [OF m, of k] assms(5)
  have m': "m_previous_hash (append_models L mcalls [] ! k) =
           (if k = 0 then ''0'' else m_block_hash (append_models L mcalls [] ! (k - 1)))"
    by (simp add: model_links_def split: if_splits)
  from c' t' m' show ?thesis by (simp add: genesis_def)
qed

lemma demo_digest_eq: "(demo_digest x = demo_digest y) = (x = y)"
  by (auto simp: demo_digest_def)

lemma add_credit_first:
  "credit_score_blockchain self = [] \<Longrightarrow> sqlite_int u \<Longrightarrow> sqlite_int c \<Longrightarrow>
   length (credit_score_blockchain (after (add_credit_score_block L clk self u c m p rf) self)) = 1"
  by (simp add: after_def add_credit_score_block_def Let_def)

lemma add_transaction_first:
  "transaction_blockchain self = [] \<Longrightarrow> sqlite_int u \<Longrightarrow>
   length (transaction_blockchain (after (add_transaction_block L clk self u t a) self)) = 1"
  by (simp add: after_def add_transaction_block_def Let_def)

lemma add_model_first:
  "after (add_model_block L clk [] m a d) [] =
     [\<lparr>m_id = 1,
       m_block_hash = sha256 L (json_dumps L True (model_block_data m a d ''0'' (isoformat (py_now clk)))),
       m_previous_hash = ''0'', m_model_version = m, m_accuracy = a,
       m_training_data_hash = d, m_timestamp = current_timestamp (db_now clk),
       m_verified = True\<rparr>]"
  by (simp add: after_def add_model_block_def Let_def)

lemma add_model_second:
  "sha256 L (json_dumps L True (model_block_data m a d (m_block_hash r) (isoformat (py_now clk))))
     \<noteq> m_block_hash r \<Longrightarrow>
   length (after (add_model_block L clk [r] m a d) [r]) = 2"
  by (simp add: after_def add_model_block_def Let_def)

lemma demo_credit_length:
  "length (credit_score_blockchain
     (append_credit_scores demo_lib [(demo_clock, demo_credit_1)] init_blockchain)) = 1"
  by (simp add: add_credit_first init_blockchain_def sqlite_int_def demo_credit_1_def)

lemma demo_transaction_length:
  "length (transaction_blockchain
     (append_transactions demo_lib [(demo_clock, demo_transaction_1)] init_blockchain)) = 1"
  by (simp add: add_transaction_first init_blockchain_def sqlite_int_def demo_transaction_1_def)

lemma demo_model_length:
  "length (append_models demo_lib [(demo_clock, demo_model_1), (demo_clock, demo_model_2)] []) = 2"
  apply (simp add: add_model_first)
  apply (rule add_model_second)
  apply (simp add: model_json_head demo_lib_def demo_digest_eq demo_model_1_def demo_model_2_def)
  apply (simp add: json_string_def esc_char_def)
  done

theorem appended_ledgers_linked_witness:
  "cs_previous_hash (credit_score_blockchain
       (append_credit_scores demo_lib [(demo_clock, demo_credit_1)] init_blockchain) ! 0) =
     replicate 64 CHR ''0''
   \<and> tx_previous_hash (transaction_blockchain
       (append_transactions demo_lib [(demo_clock, demo_transaction_1)] init_blockchain) ! 0) =
     replicate 64 CHR ''0''
   \<and> m_previous_hash
       (append_models demo_lib [(demo_clock, demo_model_1), (demo_clock, demo_model_2)] [] ! 1) =
     m_block_hash
       (append_models demo_lib [(demo_clock, demo_model_1), (demo_clock, demo_model_2)] [] ! 0)"
proof -
  have c: "credit_score_blockchain init_blockchain = []"
    and t: "transaction_blockchain init_blockchain = []"
    by (simp_all add: init_blockchain_def)
  have i: "0 < length (credit_score_blockchain
       (append_credit_scores demo_lib [(demo_clock, demo_credit_1)] init_blockchain))"
    by (simp only: demo_credit_length)
  have j: "0 < length (transaction_blockchain
       (append_transactions demo_lib [(demo_clock, demo_transaction_1)] init_blockchain))"
    by (simp only: demo_transaction_length)
  have k: "1 < length (append_models demo_lib
       [(demo_clock, demo_model_1), (demo_clock, demo_model_2)] [])"
    unfolding demo_model_length by simp
  from appended_ledgers_linked [OF c t i j k] show ?thesis by simp
qed

text \<open>
  The claim as stated fails for the model ledger: its first block's previous hash is
  not the sentinel of 64 zeros.
\<close>

theorem model_genesis_counterexample:
  "m_previous_hash (append_models demo_lib [(demo_clock, demo_model_1)] [] ! 0) = ''0''
   \<and> m_previous_hash (append_models demo_lib [(demo_clock, demo_model_1)] [] ! 0)
       \<noteq> replicate 64 CHR ''0''"
  by (simp add: add_model_first replicate_numeral_Cons)

subsection \<open>Re-verification of appended blocks\<close>

text \<open>
  What \<^verbatim>\<open>add_credit_score_block\<close> leaves in a row: the block hash is the digest of
  the canonical JSON with the timestamp \<^verbatim>\<open>datetime.now().isoformat()\<close>, followed by
  the Merkle root and the nonce, while the row's \<^verbatim>\<open>timestamp\<close> column holds SQLite's
  \<^verbatim>\<open>CURRENT_TIMESTAMP\<close>.
\<close>

definition sealed :: "pylib \<Rightarrow> credit_row \<Rightarrow> bool" where
  "sealed L r =
     (\<exists>rf t u n.
        cs_block_hash r =
          sha256 L (json_dumps L True
            (credit_block_data (cs_user_id r) (cs_credit_score r) (cs_model_version r)
               (cs_prediction_confidence r) rf (cs_previous_hash r) (isoformat t))
            @ cs_merkle_root r @ str_nat n)
        \<and> cs_nonce r = int n
        \<and> cs_timestamp r = current_timestamp u)"

text \<open>
  The string \<^verbatim>\<open>_verify_single_block\<close> hashes is never the string that was sealed:
  the two timestamps differ in form (\<^verbatim>\<open>T\<close> against a space, and the fraction of a
  second), whatever \<^verbatim>\<open>json.loads\<close> returns for the risk factors.
\<close>

lemma credit_preimage_clash:
  "json_dumps L True (credit_block_data u c m p rf1 ph (isoformat t)) @ mr @ s \<noteq>
   json_dumps L True (credit_block_data u c m p rf2 ph (current_timestamp t')) @ mr @ s"
proof
  let ?head = "\<lambda>rf. ''{\"credit_score\": '' @ py_str c @ '', \"model_version\": '' @ json_string m @
     '', \"prediction_confidence\": '' @ float_repr L p @
     '', \"previous_hash\": '' @ json_string ph @
     '', \"risk_factors\": '' @ json_dumps L True rf @ '', \"timestamp\": \"''"
  let ?tail = "''\", \"user_id\": '' @ py_str u @ ''}'' @ mr @ s"
  assume eq: "json_dumps L True (credit_block_data u c m p rf1 ph (isoformat t)) @ mr @ s =
      json_dumps L True (credit_block_data u c m p rf2 ph (current_timestamp t')) @ mr @ s"
  have l: "json_dumps L True (credit_block_data u c m p rf1 ph (isoformat t)) @ mr @ s =
      (?head rf1 @ isoformat t) @ ?tail"
    by (simp add: credit_json_head json_string_def [of "isoformat t"] esc_isoformat)
  have r: "json_dumps L True (credit_block_data u c m p rf2 ph (current_timestamp t')) @ mr @ s =
      (?head rf2 @ current_timestamp t') @ ?tail"
    by (simp add: credit_json_head json_string_def [of "current_timestamp t'"] esc_current_timestamp)
  from eq have "(?head rf1 @ isoformat t) @ ?tail = (?head rf2 @ current_timestamp t') @ ?tail"
    unfolding l r .
  then have "?head rf1 @ isoformat t = ?head rf2 @ current_timestamp t'"
    by (simp only: append_same_eq)
  then show False by (rule timestamp_clash [THEN notE])
qed

lemma verified_block_is_collision:
  assumes "sealed L r" and "verify_single_block L (CreditBlock r) ''credit_score''"
  shows "\<exists>x y. x \<noteq> y \<and> sha256 L x = sha256 L y"
proof -
  from assms(1) obtain rf t u n where
    h: "cs_block_hash r =
          sha256 L (json_dumps L True
            (credit_block_data (cs_user_id r) (cs_credit_score r) (cs_model_version r)
               (cs_prediction_confidence r) rf (cs_previous_hash r) (isoformat t))
            @ cs_merkle_root r @ str_nat n)"
    and n: "cs_nonce r = int n" and ts: "cs_timestamp r = current_timestamp u"
    unfolding sealed_def by blast
  from assms(2) obtain j where
    v: "sha256 L (json_dumps L True
            (credit_block_data (cs_user_id r) (cs_credit_score r) (cs_model_version r)
               (cs_prediction_confidence r) j (cs_previous_hash r) (current_timestamp u))
            @ cs_merkle_root r @ str_nat n) = cs_block_hash r"
    by (auto simp: verify_single_block_def Let_def n ts py_str_def split: option.splits)
  let ?x = "json_dumps L True
            (credit_block_data (cs_user_id r) (cs_credit_score r) (cs_model_version r)
               (cs_prediction_confidence r) rf (cs_previous_hash r) (isoformat t))
            @ cs_merkle_root r @ str_nat n"
  let ?y = "json_dumps L True
            (credit_block_data (cs_user_id r) (cs_credit_score r) (cs_model_version r)
               (cs_prediction_confidence r) j (cs_previous_hash r) (current_timestamp u))
            @ cs_merkle_root r @ str_nat n"
  have "?x \<noteq> ?y" by (rule credit_preimage_clash)
  moreover have "sha256 L ?x = sha256 L ?y" using h v by simp
  ultimately show ?thesis by blast
qed

lemma sealed_not_verified:
  "inj (sha256 L) \<Longrightarrow> sealed L r \<Longrightarrow> \<not> verify_single_block L (CreditBlock r) ''credit_score''"
  using verified_block_is_collision [of L r] by (auto dest: injD)

lemma add_credit_sealed:
  "\<forall>r \<in> set (credit_score_blockchain self). sealed L r \<Longrightarrow>
   \<forall>r \<in> set (credit_score_blockchain (after (add_credit_score_block L clk self u c m p rf) self)).
     sealed L r"
proof -
  assume a: "\<forall>r \<in> set (credit_score_blockchain self). sealed L r"
  have new: "sealed L
     \<lparr>cs_id = i, cs_block_hash = sha256 L (json_dumps L True
          (credit_block_data u c m p (JList (map JStr rf)) ph (isoformat (py_now clk))) @ mr @ str_nat n),
       cs_previous_hash = ph, cs_user_id = u, cs_credit_score = c, cs_model_version = m,
       cs_prediction_confidence = p, cs_risk_factors = rft, cs_merkle_root = mr,
       cs_nonce = int n, cs_timestamp = current_timestamp (db_now clk),
       cs_miner_id = mi, cs_block_size = bs, cs_verified = vf\<rparr>" for i ph mr n rft mi bs vf
    unfolding sealed_def by (intro exI [of _ "JList (map JStr rf)"] exI [of _ "py_now clk"]
        exI [of _ "db_now clk"] exI [of _ n]) simp
  show ?thesis
    using a by (auto simp: after_def add_credit_score_block_def Let_def new)
qed

lemma append_credit_scores_sealed:
  "\<forall>r \<in> set (credit_score_blockchain self). sealed L r \<Longrightarrow>
   \<forall>r \<in> set (credit_score_blockchain (append_credit_scores L calls self)). sealed L r"
proof (induction L calls self rule: append_credit_scores.induct)
  case (1 L self)
  then show ?case by simp
next
  case (2 L clk p calls self)
  from add_credit_sealed [OF "2.prems"] show ?case
    by (simp add: "2.IH")
qed

text \<open>
  C1 fails on the code. After any sequence of appends that leaves the credit-score
  ledger non-empty, \<^verbatim>\<open>_verify_single_block\<close> rejects every block and
  \<^verbatim>\<open>verify_blockchain_integrity('credit_score')\<close> returns \<^verbatim>\<open>valid=False\<close>,
  \<^verbatim>\<open>verified_blocks=0\<close> and \<^verbatim>\<open>integrity_score=0.0\<close>, for every digest function
  without collisions; by \<open>verified_block_is_collision\<close>, a block can only pass if the
  digest collides on the sealed and the recomputed string.
\<close>

theorem appended_credit_ledger_unverified:
  assumes "inj (sha256 L)"
    and "credit_score_blockchain self = []"
    and "credit_score_blockchain (append_credit_scores L calls self) \<noteq> []"
  shows "(\<forall>r \<in> set (credit_score_blockchain (append_credit_scores L calls self)).
            \<not> verify_single_block L (CreditBlock r) ''credit_score'')
     \<and> \<not> valid (fst (verify_blockchain_integrity L clk (append_credit_scores L calls self) ''credit_score''))
     \<and> integrity_score (fst (verify_blockchain_integrity L clk (append_credit_scores L calls self) ''credit_score'')) = 0
     \<and> verified_blocks (fst (verify_blockchain_integrity L clk (append_credit_scores L calls self) ''credit_score'')) = 0
     \<and> total_blocks (fst (verify_blockchain_integrity L clk (append_credit_scores L calls self) ''credit_score'')) =
         length (credit_score_blockchain (append_credit_scores L calls self))"
proof -
  let ?self = "append_credit_scores L calls self"
  have "\<forall>r \<in> set (credit_score_blockchain ?self). sealed L r"
    using assms(2) by (intro append_credit_scores_sealed) simp
  then have none: "\<forall>r \<in> set (credit_score_blockchain ?self).
      \<not> verify_single_block L (CreditBlock r) ''credit_score''"
    using assms(1) by (simp add: sealed_not_verified)
  have f: "fetch_blocks ?self ''credit_score'' = map CreditBlock (credit_score_blockchain ?self)"
    by (simp add: fetch_blocks_def)
  have "\<forall>b \<in> set (fetch_blocks ?self ''credit_score''). \<not> verify_single_block L b ''credit_score''"
    using none by (simp add: f)
  then have "fst (verify_loop L ''credit_score'' (fetch_blocks ?self ''credit_score'') 0
      (fetch_blocks ?self ''credit_score'') 0) = 0"
    by (rule verify_loop_none_verified)
  with none assms(3) show ?thesis
    by (simp add: verify_blockchain_integrity_def Let_def f)
qed

lemma demo_lib_inj: "inj (sha256 demo_lib)"
  by (rule injI) (simp add: demo_lib_def demo_digest_eq)

theorem appended_credit_ledger_unverified_witness:
  "\<not> valid (fst (verify_blockchain_integrity demo_lib demo_clock
       (append_credit_scores demo_lib [(demo_clock, demo_credit_1)] init_blockchain) ''credit_score''))
   \<and> integrity_score (fst (verify_blockchain_integrity demo_lib demo_clock
       (append_credit_scores demo_lib [(demo_clock, demo_credit_1)] init_blockchain) ''credit_score'')) = 0
   \<and> verified_blocks (fst (verify_blockchain_integrity demo_lib demo_clock
       (append_credit_scores demo_lib [(demo_clock, demo_credit_1)] init_blockchain) ''credit_score'')) = 0
   \<and> total_blocks (fst (verify_blockchain_integrity demo_lib demo_clock
       (append_credit_scores demo_lib [(demo_clock, demo_credit_1)] init_blockchain) ''credit_score'')) = 1"
proof -
  have e: "credit_score_blockchain init_blockchain = []"
    by (simp add: init_blockchain_def)
  have ne: "credit_score_blockchain
      (append_credit_scores demo_lib [(demo_clock, demo_credit_1)] init_blockchain) \<noteq> []"
    using demo_credit_length by auto
  from appended_credit_ledger_unverified [OF demo_lib_inj e ne, of demo_clock] demo_credit_length
  show ?thesis by simp
qed

lemma verify_loop_all_verified:
  "rest = drop i blocks \<Longrightarrow>
   \<forall>b \<in> set rest. verify_single_block L b kind \<Longrightarrow>
   \<forall>j. 0 < j \<and> j < length blocks \<longrightarrow> \<not> linkage_broken kind (blocks ! j) (blocks ! (j - 1)) \<Longrightarrow>
   verify_loop L kind blocks i rest v = (v + length rest, i + length rest)"
proof (induction rest arbitrary: i v)
  case Nil
  then show ?case by simp
next
  case (Cons b rest)
  from Cons.prems(1) have il: "i < length blocks"
    by (metis drop_all list.distinct(1) not_le)
  then have d: "drop i blocks = blocks ! i # drop (Suc i) blocks"
    by (simp add: Cons_nth_drop_Suc)
  with Cons.prems(1) have b: "b = blocks ! i" and r: "rest = drop (Suc i) blocks"
    by simp_all
  have nb: "\<not> (0 < i \<and> linkage_broken kind b (blocks ! (i - 1)))"
    using Cons.prems(3) il b by blast
  have vb: "verify_single_block L b kind" using Cons.prems(2) by simp
  have "verify_loop L kind blocks (Suc i) rest (v + 1) = (v + 1 + length rest, Suc i + length rest)"
    using Cons.prems(2,3) by (intro Cons.IH [OF r]) simp_all
  with nb vb show ?case by (auto simp: Let_def)
qed

text \<open>
  The transaction path, by contrast, hashes stored columns only, and a transaction
  ledger grown from the empty ledger does verify.
\<close>

lemma add_transaction_verifies:
  "\<forall>r \<in> set (transaction_blockchain self). verify_single_block L (TxBlock r) ''transaction'' \<Longrightarrow>
   \<forall>r \<in> set (transaction_blockchain (after (add_transaction_block L clk self u t a) self)).
     verify_single_block L (TxBlock r) ''transaction''"
  by (auto simp: after_def add_transaction_block_def Let_def verify_single_block_def py_str_def)

lemma append_transactions_verifies:
  "\<forall>r \<in> set (transaction_blockchain self). verify_single_block L (TxBlock r) ''transaction'' \<Longrightarrow>
   \<forall>r \<in> set (transaction_blockchain (append_transactions L calls self)).
     verify_single_block L (TxBlock r) ''transaction''"
proof (induction L calls self rule: append_transactions.induct)
  case (1 L self)
  then show ?case by simp
next
  case (2 L clk p calls self)
  from add_transaction_verifies [OF "2.prems"] show ?case
    by (simp add: "2.IH")
qed

lemma appended_transaction_ledger_verifies:
  assumes "transaction_blockchain self = []"
    and "transaction_blockchain (append_transactions L calls self) \<noteq> []"
  shows "valid (fst (verify_blockchain_integrity L clk (append_transactions L calls self) ''transaction''))
     \<and> integrity_score (fst (verify_blockchain_integrity L clk (append_transactions L calls self)
           ''transaction'')) = 1"
proof -
  let ?self = "append_transactions L calls self"
  let ?rows = "transaction_blockchain ?self"
  let ?bs = "fetch_blocks ?self ''transaction''"
  have f: "?bs = map TxBlock ?rows" by (simp add: fetch_blocks_def)
  have all: "\<forall>b \<in> set ?bs. verify_single_block L b ''transaction''"
    using append_transactions_verifies [of self L calls] assms(1) by (simp add: f)
  have lk: "linked genesis (transaction_links ?self)"
    using assms(1) by (intro append_transactions_linked) (simp add: transaction_links_def)
  have nb: "\<forall>j. 0 < j \<and> j < length ?bs \<longrightarrow>
      \<not> linkage_broken ''transaction'' (?bs ! j) (?bs ! (j - 1))"
  proof (intro allI impI)
    fix j assume j: "0 < j \<and> j < length ?bs"
    then have jl: "j < length (transaction_links ?self)"
      by (simp add: f transaction_links_def)
    from j have j0: "j < length ?rows" by (simp add: f)
    then have j1: "j - 1 < length ?rows" by linarith
    from linked_nth [OF lk jl] j
    have "tx_previous_hash (?rows ! j) = tx_block_hash (?rows ! (j - 1))"
      unfolding transaction_links_def nth_map [OF j0] nth_map [OF j1] by simp
    then show "\<not> linkage_broken ''transaction'' (?bs ! j) (?bs ! (j - 1))"
      unfolding f nth_map [OF j0] nth_map [OF j1] by (simp add: linkage_broken_def)
  qed
  have "verify_loop L ''transaction'' ?bs 0 ?bs 0 = (0 + length ?bs, 0 + length ?bs)"
    using all nb by (intro verify_loop_all_verified) simp_all
  with assms(2) show ?thesis
    by (simp add: verify_blockchain_integrity_def Let_def f)
qed

end
